theory Spec2Isabelle
  imports Main "HOL-Library.AList" "HOL-Library.Sublist"
begin

section \<open>Data model (server/storage.ts)\<close>

text \<open>
  The download status is the string union \<^verbatim>\<open>DownloadStatus\<close> of shared/schema.ts;
  the status the spec calls "active" is \<^verbatim>\<open>'downloading'\<close>.
\<close>

datatype DownloadStatus = Queued | Downloading | Paused | Completed | Failed | Canceled

text \<open>A \<^verbatim>\<open>Date\<close> is a point in time; \<^verbatim>\<open>new Date()\<close> reads a clock passed as \<open>now\<close>.\<close>

type_synonym date = nat

text \<open>
  The row that \<^verbatim>\<open>createDownload\<close> writes. \<open>completedAt\<close> is the extra property
  that routes.ts spreads into the row when a transfer succeeds; a fresh row does not
  have it. \<open>id_no\<close> is the field \<^verbatim>\<open>id\<close>.
\<close>

record Download =
  id_no :: nat
  appId :: string
  title :: string
  status :: DownloadStatus
  totalSize :: "string option"
  installPath :: "string option"
  progress :: nat
  speed :: string
  downloaded :: string
  timeRemaining :: string
  queuePosition :: nat
  dateAdded :: date
  dateCompleted :: "date option"
  errorMessage :: "string option"
  completedAt :: "date option"

text \<open>
  \<^verbatim>\<open>Partial<Download>\<close>: \<open>None\<close> is a property the update does not have, \<open>Some v\<close>
  a property it has. For a nullable field \<open>Some None\<close> is an explicit \<^verbatim>\<open>null\<close>.
\<close>

record DownloadUpdate =
  u_id :: "nat option"
  u_appId :: "string option"
  u_title :: "string option"
  u_status :: "DownloadStatus option"
  u_totalSize :: "string option option"
  u_installPath :: "string option option"
  u_progress :: "nat option"
  u_speed :: "string option"
  u_downloaded :: "string option"
  u_timeRemaining :: "string option"
  u_queuePosition :: "nat option"
  u_dateAdded :: "date option"
  u_dateCompleted :: "date option option"
  u_errorMessage :: "string option option"
  u_completedAt :: "date option option"

definition noUpdate :: DownloadUpdate where
  "noUpdate = \<lparr> u_id = None, u_appId = None, u_title = None, u_status = None,
     u_totalSize = None, u_installPath = None, u_progress = None, u_speed = None,
     u_downloaded = None, u_timeRemaining = None, u_queuePosition = None,
     u_dateAdded = None, u_dateCompleted = None, u_errorMessage = None,
     u_completedAt = None \<rparr>"

record InsertDownload =
  ins_appId :: string
  ins_title :: string
  ins_totalSize :: "string option"
  ins_installPath :: "string option"

record Settings =
  steamCmdPath :: string
  downloadPath :: string
  maxConcurrentDownloads :: nat

text \<open>
  The download table of \<^verbatim>\<open>MemStorage\<close>. A JavaScript \<^verbatim>\<open>Map\<close> iterates in insertion
  order, \<^verbatim>\<open>set\<close> on a present key keeps its place and \<^verbatim>\<open>delete\<close> removes it: an
  association list with \<open>AList.update\<close> and \<open>AList.delete\<close>.
\<close>

record MemStorage =
  downloadsList :: "(nat \<times> Download) list"
  downloadCurrentId :: nat
  appSettings :: "Settings option"

definition rows :: "MemStorage \<Rightarrow> Download list" where
  "rows st = map snd (downloadsList st)"

text \<open>\<^verbatim>\<open>a.queuePosition || 999\<close>: a position of 0 is falsy.\<close>

definition sortKey :: "Download \<Rightarrow> nat" where
  "sortKey d = (if queuePosition d = 0 then 999 else queuePosition d)"

text \<open>\<^verbatim>\<open>Array.prototype.sort\<close> is stable, as is \<open>sort_key\<close>.\<close>

definition getAllDownloads :: "MemStorage \<Rightarrow> Download list" where
  "getAllDownloads st = sort_key sortKey (rows st)"

definition getActiveDownloads :: "MemStorage \<Rightarrow> Download list" where
  "getActiveDownloads st = sort_key sortKey (filter (\<lambda>d. status d = Downloading) (rows st))"

definition getQueuedDownloads :: "MemStorage \<Rightarrow> Download list" where
  "getQueuedDownloads st = sort_key sortKey (filter (\<lambda>d. status d = Queued) (rows st))"

definition getDownloadById :: "nat \<Rightarrow> MemStorage \<Rightarrow> Download option" where
  "getDownloadById i st = map_of (downloadsList st) i"

definition getDownloadByAppId :: "string \<Rightarrow> MemStorage \<Rightarrow> Download option" where
  "getDownloadByAppId a st = find (\<lambda>d. appId d = a) (rows st)"

text \<open>\<^verbatim>\<open>x || null\<close> on an optional string: the empty string is falsy too.\<close>

definition orNull :: "string option \<Rightarrow> string option" where
  "orNull x = (case x of None \<Rightarrow> None | Some s \<Rightarrow> if s = [] then None else Some s)"

definition maxQueue :: "MemStorage \<Rightarrow> nat" where
  "maxQueue st = fold max (map queuePosition (rows st)) 0"

definition createDownload :: "date \<Rightarrow> InsertDownload \<Rightarrow> MemStorage \<Rightarrow> Download \<times> MemStorage" where
  "createDownload now download st =
     (let i = downloadCurrentId st;
          newDownload = \<lparr> id_no = i, appId = ins_appId download, title = ins_title download,
            status = Queued, totalSize = orNull (ins_totalSize download),
            installPath = orNull (ins_installPath download), progress = 0,
            speed = ''0 MB/s'', downloaded = ''0 B'', timeRemaining = ''Unknown'',
            queuePosition = maxQueue st + 1, dateAdded = now, dateCompleted = None,
            errorMessage = None, completedAt = None \<rparr>
      in (newDownload,
          st\<lparr> downloadCurrentId := i + 1,
              downloadsList := AList.update i newDownload (downloadsList st) \<rparr>))"

definition orElse :: "'a option \<Rightarrow> 'a \<Rightarrow> 'a" where
  "orElse x old = (case x of None \<Rightarrow> old | Some v \<Rightarrow> v)"

text \<open>The object spread \<^verbatim>\<open>{ ...download, ...update }\<close>.\<close>

definition spread :: "Download \<Rightarrow> DownloadUpdate \<Rightarrow> Download" where
  "spread d u = \<lparr> id_no = orElse (u_id u) (id_no d), appId = orElse (u_appId u) (appId d),
     title = orElse (u_title u) (title d), status = orElse (u_status u) (status d),
     totalSize = orElse (u_totalSize u) (totalSize d),
     installPath = orElse (u_installPath u) (installPath d),
     progress = orElse (u_progress u) (progress d), speed = orElse (u_speed u) (speed d),
     downloaded = orElse (u_downloaded u) (downloaded d),
     timeRemaining = orElse (u_timeRemaining u) (timeRemaining d),
     queuePosition = orElse (u_queuePosition u) (queuePosition d),
     dateAdded = orElse (u_dateAdded u) (dateAdded d),
     dateCompleted = orElse (u_dateCompleted u) (dateCompleted d),
     errorMessage = orElse (u_errorMessage u) (errorMessage d),
     completedAt = orElse (u_completedAt u) (completedAt d) \<rparr>"

text \<open>\<^verbatim>\<open>!update.dateCompleted\<close>: true when the property is missing and when it is null.\<close>

definition noDateCompleted :: "DownloadUpdate \<Rightarrow> bool" where
  "noDateCompleted u = (case u_dateCompleted u of None \<Rightarrow> True | Some None \<Rightarrow> True
     | Some (Some t) \<Rightarrow> False)"

definition updatedRow :: "date \<Rightarrow> Download \<Rightarrow> DownloadUpdate \<Rightarrow> Download" where
  "updatedRow now download update =
     (let updatedDownload = spread download update
      in if u_status update = Some Completed \<and> noDateCompleted update
         then updatedDownload\<lparr> dateCompleted := Some now \<rparr>
         else updatedDownload)"

definition updateDownload ::
  "date \<Rightarrow> nat \<Rightarrow> DownloadUpdate \<Rightarrow> MemStorage \<Rightarrow> Download option \<times> MemStorage" where
  "updateDownload now i update st =
     (case map_of (downloadsList st) i of
        None \<Rightarrow> (None, st)
      | Some download \<Rightarrow>
          (let updatedDownload = updatedRow now download update
           in (Some updatedDownload,
               st\<lparr> downloadsList := AList.update i updatedDownload (downloadsList st) \<rparr>)))"

definition removeDownload :: "nat \<Rightarrow> MemStorage \<Rightarrow> bool \<times> MemStorage" where
  "removeDownload i st =
     (map_of (downloadsList st) i \<noteq> None,
      st\<lparr> downloadsList := AList.delete i (downloadsList st) \<rparr>)"

text \<open>
  The loop of \<^verbatim>\<open>updateDownloadQueue\<close>, at index \<open>i\<close> of \<^verbatim>\<open>newOrder\<close>. Nothing in its
  body throws, so the function returns \<^verbatim>\<open>true\<close>.
\<close>

fun reorderFrom :: "nat \<Rightarrow> nat list \<Rightarrow> (nat \<times> Download) list \<Rightarrow> (nat \<times> Download) list" where
  "reorderFrom i [] dl = dl"
| "reorderFrom i (downloadId # newOrder) dl =
     reorderFrom (i + 1) newOrder
       (case map_of dl downloadId of
          None \<Rightarrow> dl
        | Some download \<Rightarrow> AList.update downloadId (download\<lparr> queuePosition := i + 1 \<rparr>) dl)"

definition updateDownloadQueue :: "nat list \<Rightarrow> MemStorage \<Rightarrow> bool \<times> MemStorage" where
  "updateDownloadQueue newOrder st =
     (True, st\<lparr> downloadsList := reorderFrom 0 newOrder (downloadsList st) \<rparr>)"


text \<open>\<^verbatim>\<open>getSettings\<close> returns the settings object, which may be undefined.\<close>

definition getSettings :: "MemStorage \<Rightarrow> Settings option" where
  "getSettings st = appSettings st"

text \<open>
  Modelled from the spec: routes.ts calls \<^verbatim>\<open>storage.deleteDownload\<close>, which storage.ts
  does not define. The spec's remove "deletes the row entirely", which is what
  \<^verbatim>\<open>removeDownload\<close> of storage.ts does.
\<close>

definition deleteDownload :: "nat \<Rightarrow> MemStorage \<Rightarrow> MemStorage" where
  "deleteDownload i st = snd (removeDownload i st)"


section \<open>Transfer runner (server/steamcmd.ts)\<close>

text \<open>\<^verbatim>\<open>String.prototype.includes\<close>.\<close>

fun str_includes :: "string \<Rightarrow> string \<Rightarrow> bool" where
  "str_includes [] sub = (sub = [])"
| "str_includes (c # cs) sub = (prefix sub (c # cs) \<or> str_includes cs sub)"

text \<open>Decimal rendering of a number in a template string.\<close>

fun showNat :: "nat \<Rightarrow> string" where
  "showNat n = (if n < 10 then [char_of (48 + n)]
                else showNat (n div 10) @ [char_of (48 + n mod 10)])"

definition showInt :: "int \<Rightarrow> string" where
  "showInt k = (if k < 0 then CHR ''-'' # showNat (nat (- k)) else showNat (nat k))"

record DownloadProgress =
  p_progress :: nat
  p_speed :: string
  p_downloaded :: string
  p_timeRemaining :: string

datatype Callback = OnProgressUpdate DownloadProgress | OnComplete | OnError string

text \<open>A child process: whether \<^verbatim>\<open>kill()\<close> was called on it, and what was written to its stdin.\<close>

record ChildProcess =
  killed :: bool
  hasStdin :: bool
  stdinData :: "string list"

text \<open>An entry of the registry \<^verbatim>\<open>activeDownloads\<close>: the handle of its process, and the appId.\<close>

record Entry =
  e_process :: nat
  e_appId :: string

text \<open>The variables that the event handlers of one \<^verbatim>\<open>downloadGame\<close> call close over.\<close>

record Closure =
  c_downloadId :: nat
  c_appId :: string
  stdoutData :: string
  lastProgressUpdate :: date

text \<open>
  The state of the module: the registry, the process objects by handle, the closures of
  the spawned processes by handle, and the callbacks invoked so far, oldest first, each
  with the download it belongs to.
\<close>

record Runner =
  activeDownloads :: "nat \<rightharpoonup> Entry"
  processes :: "nat \<Rightarrow> ChildProcess"
  closures :: "nat \<rightharpoonup> Closure"
  nextProcess :: nat
  calls :: "(nat \<times> Callback) list"

definition kill :: "nat \<Rightarrow> Runner \<Rightarrow> Runner" where
  "kill h r = r\<lparr> processes := (processes r)(h := (processes r h)\<lparr> killed := True \<rparr>) \<rparr>"

definition invoke :: "nat \<Rightarrow> Callback \<Rightarrow> Runner \<Rightarrow> Runner" where
  "invoke downloadId cb r = r\<lparr> calls := calls r @ [(downloadId, cb)] \<rparr>"

text \<open>
  \<^verbatim>\<open>downloadGame\<close> up to the registration of the handlers. \<open>mkdirError\<close> is the message
  of the exception of \<^verbatim>\<open>fs.mkdir\<close> (or of \<^verbatim>\<open>spawn\<close>), if it throws. The spawned process
  gets a fresh handle.
\<close>

definition downloadGame ::
  "date \<Rightarrow> string option \<Rightarrow> Settings option \<Rightarrow> nat \<Rightarrow> string \<Rightarrow> Runner \<Rightarrow> Runner" where
  "downloadGame now mkdirError settings downloadId a r =
     (case settings of
        None \<Rightarrow> invoke downloadId
          (OnError ''Failed to start download: Application settings not found'') r
      | Some s \<Rightarrow>
          (case mkdirError of
             Some msg \<Rightarrow> invoke downloadId (OnError (''Failed to start download: '' @ msg)) r
           | None \<Rightarrow>
               (let h = nextProcess r
                in r\<lparr> nextProcess := h + 1,
                      processes := (processes r)
                        (h := \<lparr> killed = False, hasStdin = True, stdinData = [] \<rparr>),
                      activeDownloads := (activeDownloads r)
                        (downloadId \<mapsto> \<lparr> e_process = h, e_appId = a \<rparr>),
                      closures := (closures r)
                        (h \<mapsto> \<lparr> c_downloadId = downloadId, c_appId = a, stdoutData = [],
                                lastProgressUpdate = now \<rparr>) \<rparr>)))"

text \<open>
  The handler of stdout data of the process with handle \<open>h\<close>. \<open>parse\<close> stands for
  \<^verbatim>\<open>parseDownloadProgress\<close>, which matches a regular expression and parses floats.
\<close>

definition onStdoutData ::
  "(string \<Rightarrow> DownloadProgress option) \<Rightarrow> date \<Rightarrow> nat \<Rightarrow> string \<Rightarrow> Runner \<Rightarrow> Runner" where
  "onStdoutData parse now h output r =
     (case closures r h of
        None \<Rightarrow> r
      | Some c \<Rightarrow>
          (let c1 = c\<lparr> stdoutData := stdoutData c @ output \<rparr>;
               r1 = r\<lparr> closures := (closures r)(h \<mapsto> c1) \<rparr>;
               r2 = (case parse output of
                       None \<Rightarrow> r1
                     | Some progressInfo \<Rightarrow>
                         if now - lastProgressUpdate c1 > 1000
                         then (invoke (c_downloadId c1) (OnProgressUpdate progressInfo) r1)
                                \<lparr> closures := (closures r)
                                    (h \<mapsto> c1\<lparr> lastProgressUpdate := now \<rparr>) \<rparr>
                         else r1)
           in if str_includes output ''Steam Guard code:''
              then kill h (invoke (c_downloadId c1) (OnError ''Steam Guard code required'') r2)
              else r2))"

text \<open>The handler of the exit of the process; the exit code is null after a signal.\<close>

definition onClose :: "int option \<Rightarrow> nat \<Rightarrow> Runner \<Rightarrow> Runner" where
  "onClose code h r =
     (case closures r h of
        None \<Rightarrow> r
      | Some c \<Rightarrow>
          (let r1 = r\<lparr> activeDownloads := (activeDownloads r)(c_downloadId c := None) \<rparr>
           in if code = Some 0 then invoke (c_downloadId c) OnComplete r1
              else if str_includes (stdoutData c) ''Invalid Password''
                then invoke (c_downloadId c) (OnError ''Invalid username or password'') r1
              else if str_includes (stdoutData c) ''rate limit exceeded''
                then invoke (c_downloadId c)
                       (OnError ''Rate limit exceeded, please try again later'') r1
              else if str_includes (stdoutData c) ''No subscription''
                then invoke (c_downloadId c)
                       (OnError ''You do not own this game or need to be logged in'') r1
              else invoke (c_downloadId c)
                     (OnError (''Download failed with code '' @
                        (case code of None \<Rightarrow> ''null'' | Some k \<Rightarrow> showInt k))) r1))"

definition onProcessError :: "string \<Rightarrow> nat \<Rightarrow> Runner \<Rightarrow> Runner" where
  "onProcessError msg h r =
     (case closures r h of
        None \<Rightarrow> r
      | Some c \<Rightarrow>
          invoke (c_downloadId c) (OnError (''Failed to start SteamCMD: '' @ msg))
            (r\<lparr> activeDownloads := (activeDownloads r)(c_downloadId c := None) \<rparr>))"

definition cancelDownload :: "nat \<Rightarrow> Runner \<Rightarrow> bool \<times> Runner" where
  "cancelDownload downloadId r =
     (case activeDownloads r downloadId of
        Some download \<Rightarrow>
          (True, (kill (e_process download) r)
                   \<lparr> activeDownloads := (activeDownloads r)(downloadId := None) \<rparr>)
      | None \<Rightarrow> (False, r))"

definition pauseDownload :: "nat \<Rightarrow> Runner \<Rightarrow> bool \<times> Runner" where
  "pauseDownload downloadId r = cancelDownload downloadId r"

definition submitSteamGuard :: "nat \<Rightarrow> string \<Rightarrow> Runner \<Rightarrow> bool \<times> Runner" where
  "submitSteamGuard downloadId code r =
     (case activeDownloads r downloadId of
        Some download \<Rightarrow>
          (let p = processes r (e_process download)
           in if hasStdin p
              then (True, r\<lparr> processes := (processes r)
                      (e_process download := p\<lparr> stdinData := stdinData p @ [code @ ''\<newline>''] \<rparr>) \<rparr>)
              else (False, r))
      | None \<Rightarrow> (False, r))"


section \<open>Queue scheduler (server/routes.ts)\<close>

text \<open>
  What the route handlers work on: the storage, the transfer runner, and the keys of
  the map \<^verbatim>\<open>activeDownloadJobs\<close> of progress-polling intervals.
\<close>

record World =
  storage :: MemStorage
  runner :: Runner
  activeDownloadJobs :: "nat set"

text \<open>A response: its HTTP status, its message, and the download in its body, if any.\<close>

datatype Reply = Reply nat string "Download option"

definition statusUpdate :: "DownloadStatus \<Rightarrow> DownloadUpdate" where
  "statusUpdate s = noUpdate\<lparr> u_status := Some s \<rparr>"

text \<open>The update \<^verbatim>\<open>{ status: 'queued', queuePosition: 0 }\<close> of the resume handler.\<close>

definition resumeUpdate :: DownloadUpdate where
  "resumeUpdate = noUpdate\<lparr> u_status := Some Queued, u_queuePosition := Some 0 \<rparr>"

definition failedUpdate :: "string \<Rightarrow> DownloadUpdate" where
  "failedUpdate msg = noUpdate\<lparr> u_status := Some Failed, u_errorMessage := Some (Some msg) \<rparr>"

text \<open>
  \<^verbatim>\<open>startDownload\<close>, up to the call of \<^verbatim>\<open>downloadGame\<close>, which is not awaited: the
  outcome of the transfer arrives later, as \<open>onTransferSettled\<close> or \<open>onTransferRejected\<close>.
  When the row is missing the function throws, and its \<^verbatim>\<open>catch\<close> block marks the (missing)
  row failed and calls \<^verbatim>\<open>processDownloadQueue\<close> again without awaiting it; that further
  pass is not part of this function. The handlers keep every row under its own id, and
  then the ids that \<open>processDownloadQueue\<close> passes are present and this branch is not
  taken (lemmas \<open>keyed_handle\<close> and \<open>processDownloadQueue_finds_rows\<close>).
\<close>

definition startDownload :: "date \<Rightarrow> nat \<Rightarrow> World \<Rightarrow> World" where
  "startDownload now downloadId w =
     (let st1 = snd (updateDownload now downloadId (statusUpdate Downloading) (storage w))
      in case getDownloadById downloadId st1 of
           None \<Rightarrow>
             w\<lparr> storage := snd (updateDownload now downloadId
                   (failedUpdate (''Download '' @ showNat downloadId @ '' not found'')) st1) \<rparr>
         | Some download \<Rightarrow>
             w\<lparr> storage := st1,
                activeDownloadJobs := insert downloadId (activeDownloadJobs w) \<rparr>)"

text \<open>
  \<^verbatim>\<open>processDownloadQueue\<close>. Reading \<^verbatim>\<open>maxConcurrentDownloads\<close> of undefined settings
  throws; the \<^verbatim>\<open>catch\<close> block logs the error.
\<close>

definition processDownloadQueue :: "date \<Rightarrow> World \<Rightarrow> World" where
  "processDownloadQueue now w =
     (if length (getActiveDownloads (storage w)) > 0 then w
      else case getSettings (storage w) of
             None \<Rightarrow> w
           | Some settings \<Rightarrow>
               (let maxConcurrent = (if maxConcurrentDownloads settings = 0 then 1
                                     else maxConcurrentDownloads settings);
                    queuedDownloads = getQueuedDownloads (storage w)
                in if length queuedDownloads = 0 then w
                   else fold (\<lambda>download. startDownload now (id_no download))
                          (take maxConcurrent queuedDownloads) w))"

text \<open>
  The handlers. A request body is \<open>None\<close> when \<^verbatim>\<open>safeParse\<close> rejects it, and the id of
  a route is \<open>None\<close> when \<^verbatim>\<open>parseInt\<close> gives NaN. A handler and the admission pass that
  it calls await only promises of \<^verbatim>\<open>MemStorage\<close>, which are resolved when they are made,
  so a handler and its pass run to their end before the next request is handled: each
  handler is a function from the world before it to the world after it.
\<close>

definition postDownloads :: "date \<Rightarrow> InsertDownload option \<Rightarrow> World \<Rightarrow> Reply \<times> World" where
  "postDownloads now body w =
     (case body of
        None \<Rightarrow> (Reply 400 ''Invalid download data'' None, w)
      | Some downloadData \<Rightarrow>
          (case getDownloadByAppId (ins_appId downloadData) (storage w) of
             Some existingDownload \<Rightarrow>
               (Reply 409 ''This game is already in your download queue''
                  (Some existingDownload), w)
           | None \<Rightarrow>
               (let (download, st1) = createDownload now downloadData (storage w)
                in (Reply 201 [] (Some download),
                    processDownloadQueue now (w\<lparr> storage := st1 \<rparr>)))))"

definition postReorder :: "nat list option \<Rightarrow> World \<Rightarrow> Reply \<times> World" where
  "postReorder body w =
     (case body of
        None \<Rightarrow> (Reply 400 ''Invalid queue order data'' None, w)
      | Some order \<Rightarrow>
          (let (success, st1) = updateDownloadQueue order (storage w)
           in if \<not> success then (Reply 500 ''Failed to update queue order'' None, w)
              else (Reply 200 ''Queue order updated successfully'' None,
                    w\<lparr> storage := st1 \<rparr>)))"

definition postPause :: "date \<Rightarrow> nat option \<Rightarrow> World \<Rightarrow> Reply \<times> World" where
  "postPause now idParam w =
     (case idParam of
        None \<Rightarrow> (Reply 400 ''Invalid download ID'' None, w)
      | Some downloadId \<Rightarrow>
          (case getDownloadById downloadId (storage w) of
             None \<Rightarrow> (Reply 404 ''Download not found'' None, w)
           | Some download \<Rightarrow>
               if status download \<noteq> Downloading
               then (Reply 400 ''Can only pause active downloads'' None, w)
               else
                 (let r1 = snd (pauseDownload downloadId (runner w));
                      (updatedDownload, st1) =
                         updateDownload now downloadId (statusUpdate Paused) (storage w)
                  in (Reply 200 [] updatedDownload,
                      processDownloadQueue now
                        (w\<lparr> storage := st1, runner := r1,
                            activeDownloadJobs := activeDownloadJobs w - {downloadId} \<rparr>)))))"

definition postResume :: "date \<Rightarrow> nat option \<Rightarrow> World \<Rightarrow> Reply \<times> World" where
  "postResume now idParam w =
     (case idParam of
        None \<Rightarrow> (Reply 400 ''Invalid download ID'' None, w)
      | Some downloadId \<Rightarrow>
          (case getDownloadById downloadId (storage w) of
             None \<Rightarrow> (Reply 404 ''Download not found'' None, w)
           | Some download \<Rightarrow>
               if status download \<noteq> Paused
               then (Reply 400 ''Can only resume paused downloads'' None, w)
               else
                 (let st1 = snd (updateDownload now downloadId resumeUpdate (storage w))
                  in (Reply 200 ''Download queued for resumption'' None,
                      processDownloadQueue now (w\<lparr> storage := st1 \<rparr>)))))"

text \<open>The part of cancel and remove that stops the transfer of an active download.\<close>

definition stopIfActive :: "nat \<Rightarrow> Download \<Rightarrow> World \<Rightarrow> World" where
  "stopIfActive downloadId download w =
     (if status download = Downloading
      then w\<lparr> runner := snd (cancelDownload downloadId (runner w)),
              activeDownloadJobs := activeDownloadJobs w - {downloadId} \<rparr>
      else w)"

definition postCancel :: "date \<Rightarrow> nat option \<Rightarrow> World \<Rightarrow> Reply \<times> World" where
  "postCancel now idParam w =
     (case idParam of
        None \<Rightarrow> (Reply 400 ''Invalid download ID'' None, w)
      | Some downloadId \<Rightarrow>
          (case getDownloadById downloadId (storage w) of
             None \<Rightarrow> (Reply 404 ''Download not found'' None, w)
           | Some download \<Rightarrow>
               (let w1 = stopIfActive downloadId download w;
                    st1 = snd (updateDownload now downloadId (statusUpdate Canceled) (storage w1))
                in (Reply 200 ''Download canceled successfully'' None,
                    processDownloadQueue now (w1\<lparr> storage := st1 \<rparr>)))))"

definition deleteDownloads :: "date \<Rightarrow> nat option \<Rightarrow> World \<Rightarrow> Reply \<times> World" where
  "deleteDownloads now idParam w =
     (case idParam of
        None \<Rightarrow> (Reply 400 ''Invalid download ID'' None, w)
      | Some downloadId \<Rightarrow>
          (case getDownloadById downloadId (storage w) of
             None \<Rightarrow> (Reply 404 ''Download not found'' None, w)
           | Some download \<Rightarrow>
               (let w1 = stopIfActive downloadId download w;
                    st1 = deleteDownload downloadId (storage w1)
                in (Reply 200 ''Download removed successfully'' None,
                    processDownloadQueue now (w1\<lparr> storage := st1 \<rparr>)))))"

text \<open>
  The callbacks that \<^verbatim>\<open>startDownload\<close> attaches to the promise of \<^verbatim>\<open>downloadGame\<close>, as
  far as the download table goes (a success also adds the game to the library table
  and may start a compression).
\<close>

definition onTransferSettled :: "date \<Rightarrow> nat \<Rightarrow> bool \<Rightarrow> World \<Rightarrow> World" where
  "onTransferSettled now downloadId success w =
     (let w1 = w\<lparr> activeDownloadJobs := activeDownloadJobs w - {downloadId} \<rparr>;
          update = (if success
                    then noUpdate\<lparr> u_status := Some Completed, u_progress := Some 100,
                           u_completedAt := Some (Some now) \<rparr>
                    else failedUpdate ''Download failed'')
      in processDownloadQueue now
           (w1\<lparr> storage := snd (updateDownload now downloadId update (storage w1)) \<rparr>))"

definition onTransferRejected :: "date \<Rightarrow> nat \<Rightarrow> string \<Rightarrow> World \<Rightarrow> World" where
  "onTransferRejected now downloadId msg w =
     (let w1 = w\<lparr> activeDownloadJobs := activeDownloadJobs w - {downloadId} \<rparr>;
          update = failedUpdate (if msg = [] then ''Download failed'' else msg)
      in processDownloadQueue now
           (w1\<lparr> storage := snd (updateDownload now downloadId update (storage w1)) \<rparr>))"

datatype Request =
    Enqueue "InsertDownload option"
  | Pause "nat option"
  | Resume "nat option"
  | Cancel "nat option"
  | Remove "nat option"
  | TransferSettled nat bool
  | TransferRejected nat string

fun handle :: "date \<Rightarrow> Request \<Rightarrow> World \<Rightarrow> World" where
  "handle now (Enqueue body) w = snd (postDownloads now body w)"
| "handle now (Pause i) w = snd (postPause now i w)"
| "handle now (Resume i) w = snd (postResume now i w)"
| "handle now (Cancel i) w = snd (postCancel now i w)"
| "handle now (Remove i) w = snd (deleteDownloads now i w)"
| "handle now (TransferSettled i ok) w = onTransferSettled now i ok w"
| "handle now (TransferRejected i msg) w = onTransferRejected now i msg w"

text \<open>The worlds after each of a sequence of requests, each with the time it arrives at.\<close>

fun run :: "(date \<times> Request) list \<Rightarrow> World \<Rightarrow> World list" where
  "run [] w = []"
| "run ((now, req) # reqs) w = handle now req w # run reqs (handle now req w)"

definition activeCount :: "World \<Rightarrow> nat" where
  "activeCount w = length (filter (\<lambda>d. status d = Downloading) (rows (storage w)))"

text \<open>
  The points of a handler, for the states in between. \<open>beforePass\<close> is the world in which
  the admission pass of a request starts, \<open>None\<close> when the handler returns before its pass;
  \<open>toStart\<close> is the list that the pass starts, and \<open>passSteps\<close> are the worlds after each
  \<^verbatim>\<open>startDownload\<close> of the pass. \<open>points\<close> lists them for one request, and \<open>runPoints\<close> for
  a sequence of requests. The last point of a request is the world that its handler
  leaves (lemma \<open>last_points\<close>).
\<close>

fun beforePass :: "date \<Rightarrow> Request \<Rightarrow> World \<Rightarrow> World option" where
  "beforePass now (Enqueue body) w =
     (case body of
        None \<Rightarrow> None
      | Some downloadData \<Rightarrow>
          (case getDownloadByAppId (ins_appId downloadData) (storage w) of
             Some existingDownload \<Rightarrow> None
           | None \<Rightarrow> Some (w\<lparr> storage := snd (createDownload now downloadData (storage w)) \<rparr>)))"
| "beforePass now (Pause idParam) w =
     (case idParam of
        None \<Rightarrow> None
      | Some downloadId \<Rightarrow>
          (case getDownloadById downloadId (storage w) of
             None \<Rightarrow> None
           | Some download \<Rightarrow>
               if status download \<noteq> Downloading then None
               else Some (w\<lparr> storage := snd (updateDownload now downloadId
                                   (statusUpdate Paused) (storage w)),
                              runner := snd (pauseDownload downloadId (runner w)),
                              activeDownloadJobs := activeDownloadJobs w - {downloadId} \<rparr>)))"
| "beforePass now (Resume idParam) w =
     (case idParam of
        None \<Rightarrow> None
      | Some downloadId \<Rightarrow>
          (case getDownloadById downloadId (storage w) of
             None \<Rightarrow> None
           | Some download \<Rightarrow>
               if status download \<noteq> Paused then None
               else Some (w\<lparr> storage := snd (updateDownload now downloadId resumeUpdate
                                   (storage w)) \<rparr>)))"
| "beforePass now (Cancel idParam) w =
     (case idParam of
        None \<Rightarrow> None
      | Some downloadId \<Rightarrow>
          (case getDownloadById downloadId (storage w) of
             None \<Rightarrow> None
           | Some download \<Rightarrow>
               Some ((stopIfActive downloadId download w)
                 \<lparr> storage := snd (updateDownload now downloadId (statusUpdate Canceled)
                                   (storage w)) \<rparr>)))"
| "beforePass now (Remove idParam) w =
     (case idParam of
        None \<Rightarrow> None
      | Some downloadId \<Rightarrow>
          (case getDownloadById downloadId (storage w) of
             None \<Rightarrow> None
           | Some download \<Rightarrow>
               Some ((stopIfActive downloadId download w)
                 \<lparr> storage := deleteDownload downloadId (storage w) \<rparr>)))"
| "beforePass now (TransferSettled downloadId success) w =
     Some (w\<lparr> activeDownloadJobs := activeDownloadJobs w - {downloadId},
              storage := snd (updateDownload now downloadId
                (if success
                 then noUpdate\<lparr> u_status := Some Completed, u_progress := Some 100,
                        u_completedAt := Some (Some now) \<rparr>
                 else failedUpdate ''Download failed'') (storage w)) \<rparr>)"
| "beforePass now (TransferRejected downloadId msg) w =
     Some (w\<lparr> activeDownloadJobs := activeDownloadJobs w - {downloadId},
              storage := snd (updateDownload now downloadId
                (failedUpdate (if msg = [] then ''Download failed'' else msg)) (storage w)) \<rparr>)"

definition toStart :: "World \<Rightarrow> Download list" where
  "toStart w =
     (if length (getActiveDownloads (storage w)) > 0 then []
      else case getSettings (storage w) of
             None \<Rightarrow> []
           | Some settings \<Rightarrow>
               take (if maxConcurrentDownloads settings = 0 then 1
                     else maxConcurrentDownloads settings)
                 (getQueuedDownloads (storage w)))"

definition passSteps :: "date \<Rightarrow> World \<Rightarrow> World list" where
  "passSteps now w =
     map (\<lambda>n. fold (\<lambda>download. startDownload now (id_no download)) (take n (toStart w)) w)
       [1 ..< Suc (length (toStart w))]"

definition points :: "date \<Rightarrow> Request \<Rightarrow> World \<Rightarrow> World list" where
  "points now req w =
     (case beforePass now req w of
        None \<Rightarrow> [w]
      | Some w1 \<Rightarrow> w1 # passSteps now w1)"

fun runPoints :: "(date \<times> Request) list \<Rightarrow> World \<Rightarrow> World list" where
  "runPoints [] w = []"
| "runPoints ((now, req) # reqs) w = points now req w @ runPoints reqs (handle now req w)"


section \<open>Compression runner (server/compressor.ts)\<close>

datatype CompressionFormat = Zip | Tar | SevenZ

fun formatName :: "CompressionFormat \<Rightarrow> string" where
  "formatName Zip = ''zip''"
| "formatName Tar = ''tar''"
| "formatName SevenZ = ''7z''"

datatype JobStatus = JobPending | JobCompressing | JobCompleted | JobFailed

record CompressionJob =
  job_appId :: string
  job_title :: string
  job_status :: JobStatus
  job_progress :: nat
  job_format :: CompressionFormat
  startTime :: date
  endTime :: "date option"
  job_error :: "string option"
  outputPath :: "string option"
  totalBytes :: "nat option"
  compressedBytes :: "nat option"

text \<open>The library row of storage.ts.\<close>

record LibraryGame =
  game_id :: nat
  game_appId :: string
  game_title :: string
  game_installPath :: string
  game_size :: "string option"
  headerImage :: "string option"
  iconImage :: "string option"
  installDate :: date
  isCompressed :: bool
  compressedSize :: "string option"
  compressedPath :: "string option"
  compressionType :: "string option"
  compressionDate :: "date option"

text \<open>
  What one call of \<^verbatim>\<open>compressGame\<close> reads from outside: the clock, the file system
  (\<^verbatim>\<open>fs.existsSync\<close>), the message of the exception if creating the output directory,
  the write stream or the archive throws, the output path that \<^verbatim>\<open>path.join\<close> builds from
  the install path, the title, the time and the format, and the result of
  \<^verbatim>\<open>calculateDirectorySize\<close> (\<open>Inl\<close>: the message of its exception).
\<close>

record CompressEnv =
  env_now :: date
  existsSync :: "string \<Rightarrow> bool"
  setupError :: "string option"
  env_outputPath :: string
  directorySize :: "string + nat"

text \<open>The variables that the handlers of one started compression close over.\<close>

record JobClosure =
  cl_appId :: string
  compressionJob :: CompressionJob
  processedBytes :: nat
  cl_format :: CompressionFormat
  cl_outputPath :: string

datatype Settled = Resolved string | Rejected string

text \<open>
  The job table \<^verbatim>\<open>activeCompressionJobs\<close>, the library table of the storage, the
  closures of the started compressions by handle, and how their promises settled.
\<close>

record Compressor =
  activeCompressionJobs :: "(string \<times> CompressionJob) list"
  libraryGamesList :: "(string \<times> LibraryGame) list"
  jobClosures :: "nat \<rightharpoonup> JobClosure"
  nextJob :: nat
  promises :: "nat \<rightharpoonup> Settled"

definition getCompressionJobs :: "Compressor \<Rightarrow> CompressionJob list" where
  "getCompressionJobs s = map snd (activeCompressionJobs s)"

definition getCompressionJob :: "string \<Rightarrow> Compressor \<Rightarrow> CompressionJob option" where
  "getCompressionJob a s = map_of (activeCompressionJobs s) a"

definition setJob :: "string \<Rightarrow> CompressionJob \<Rightarrow> Compressor \<Rightarrow> Compressor" where
  "setJob a j s = s\<lparr> activeCompressionJobs := AList.update a j (activeCompressionJobs s) \<rparr>"

text \<open>\<^verbatim>\<open>['pending', 'compressing'].includes(existingJob.status)\<close>.\<close>

definition nonTerminal :: "CompressionJob \<Rightarrow> bool" where
  "nonTerminal j = (job_status j = JobPending \<or> job_status j = JobCompressing)"

text \<open>
  \<^verbatim>\<open>updateGameCompressionInfo\<close> of storage.ts, with the five properties that the
  compressor passes.
\<close>

definition updateGameCompressionInfo ::
  "date \<Rightarrow> string \<Rightarrow> bool \<Rightarrow> string \<Rightarrow> string \<Rightarrow> string \<Rightarrow> date \<Rightarrow> Compressor \<Rightarrow> Compressor" where
  "updateGameCompressionInfo now a isC csize cpath ctype cdate s =
     (case map_of (libraryGamesList s) a of
        None \<Rightarrow> s
      | Some game \<Rightarrow>
          s\<lparr> libraryGamesList := AList.update a
                (game\<lparr> isCompressed := isC, compressedSize := Some csize,
                      compressedPath := Some cpath, compressionType := Some ctype,
                      compressionDate := Some cdate \<rparr>)
                (libraryGamesList s) \<rparr>)"

definition putClosure :: "nat \<Rightarrow> JobClosure \<Rightarrow> Compressor \<Rightarrow> Compressor" where
  "putClosure h c s = s\<lparr> jobClosures := (jobClosures s)(h \<mapsto> c) \<rparr>"

datatype StartResult = NotStarted | Started nat

text \<open>The outer \<^verbatim>\<open>catch\<close> block of \<^verbatim>\<open>compressGame\<close>: it returns null.\<close>

definition catchBlock :: "date \<Rightarrow> string \<Rightarrow> string \<Rightarrow> Compressor \<Rightarrow> StartResult \<times> Compressor" where
  "catchBlock now a msg s =
     (NotStarted,
      case map_of (activeCompressionJobs s) a of
        None \<Rightarrow> s
      | Some job \<Rightarrow>
          setJob a (job\<lparr> job_status := JobFailed, job_error := Some msg,
                       endTime := Some now \<rparr>) s)"

text \<open>
  \<^verbatim>\<open>compressGame\<close> up to the promise it returns: \<open>NotStarted\<close> is the return value null,
  \<open>Started h\<close> the pending promise of the compression with handle \<open>h\<close>, which the
  handlers below settle.
\<close>

definition compressGame ::
  "CompressEnv \<Rightarrow> string \<Rightarrow> CompressionFormat \<Rightarrow> nat \<Rightarrow> Compressor \<Rightarrow> StartResult \<times> Compressor" where
  "compressGame env a format compressionLevel s =
     (if (case map_of (activeCompressionJobs s) a of
            None \<Rightarrow> False
          | Some existingJob \<Rightarrow> nonTerminal existingJob)
      then (NotStarted, s)
      else case map_of (libraryGamesList s) a of
             None \<Rightarrow> (NotStarted, s)
           | Some game \<Rightarrow>
               if \<not> existsSync env (game_installPath game) then (NotStarted, s)
               else (case setupError env of
                      Some msg \<Rightarrow> catchBlock (env_now env) a msg s
                    | None \<Rightarrow>
                        (let job0 = \<lparr> job_appId = a, job_title = game_title game,
                                      job_status = JobPending, job_progress = 0,
                                      job_format = format, startTime = env_now env,
                                      endTime = None, job_error = None,
                                      outputPath = Some (env_outputPath env),
                                      totalBytes = None, compressedBytes = None \<rparr>;
                             s1 = setJob a job0 s;
                             job1 = job0\<lparr> job_status := JobCompressing \<rparr>;
                             s2 = setJob a job1 s1
                         in case directorySize env of
                              Inl msg \<Rightarrow> catchBlock (env_now env) a msg s2
                            | Inr nbytes \<Rightarrow>
                                (let job2 = job1\<lparr> totalBytes := Some nbytes \<rparr>;
                                     s3 = setJob a job2 s2;
                                     h = nextJob s3
                                 in (Started h,
                                     putClosure h
                                       \<lparr> cl_appId = a, compressionJob = job2,
                                         processedBytes = 0, cl_format = format,
                                         cl_outputPath = env_outputPath env \<rparr>
                                       (s3\<lparr> nextJob := h + 1 \<rparr>))))))"

text \<open>
  The handler of the archive's \<^verbatim>\<open>entry\<close> event. \<open>entrySize\<close> is \<^verbatim>\<open>entry.stats.size\<close>,
  \<open>None\<close> when the entry has no stats; a size of 0 is falsy, and so is a total of 0.
  \<open>percent p t\<close> stands for \<^verbatim>\<open>Math.floor((p / t) * 100)\<close>, which the source computes in
  double precision.
\<close>

definition onEntry :: "(nat \<Rightarrow> nat \<Rightarrow> nat) \<Rightarrow> nat option \<Rightarrow> nat \<Rightarrow> Compressor \<Rightarrow> Compressor" where
  "onEntry percent entrySize h s =
     (case jobClosures s h of
        None \<Rightarrow> s
      | Some c \<Rightarrow>
          (case entrySize of
             None \<Rightarrow> s
           | Some sz \<Rightarrow>
               if sz = 0 then s
               else
                 (let p = processedBytes c + sz;
                      c1 = c\<lparr> processedBytes := p \<rparr>
                  in case totalBytes (compressionJob c1) of
                       None \<Rightarrow> putClosure h c1 s
                     | Some t \<Rightarrow>
                         if t = 0 then putClosure h c1 s
                         else
                           (let job = (compressionJob c1)
                                        \<lparr> job_progress := min 99 (percent p t),
                                          compressedBytes := Some p \<rparr>
                            in setJob (cl_appId c1) job
                                 (putClosure h (c1\<lparr> compressionJob := job \<rparr>) s)))))"

text \<open>
  The handler of the output stream's \<^verbatim>\<open>close\<close> event. \<open>stat\<close> is the result of
  \<^verbatim>\<open>fs.statSync(outputPath)\<close>: the size of the file, or the message of its exception.
  \<open>formatBytes\<close> stands for the method of that name, which rounds in floating point.
\<close>

definition onOutputClose ::
  "(nat \<Rightarrow> string) \<Rightarrow> date \<Rightarrow> string + nat \<Rightarrow> nat \<Rightarrow> Compressor \<Rightarrow> Compressor" where
  "onOutputClose formatBytes now stat h s =
     (case jobClosures s h of
        None \<Rightarrow> s
      | Some c \<Rightarrow>
          (case stat of
             Inr sizeInBytes \<Rightarrow>
               (let job = (compressionJob c)\<lparr> job_status := JobCompleted, job_progress := 100,
                                             endTime := Some now \<rparr>;
                    s1 = setJob (cl_appId c) job (putClosure h (c\<lparr> compressionJob := job \<rparr>) s);
                    s2 = updateGameCompressionInfo now (cl_appId c) True
                           (formatBytes sizeInBytes) (cl_outputPath c)
                           (formatName (cl_format c)) now s1
                in s2\<lparr> promises := (promises s2)(h \<mapsto> Resolved (cl_outputPath c)) \<rparr>)
           | Inl msg \<Rightarrow>
               (let job = (compressionJob c)\<lparr> job_status := JobFailed, job_error := Some msg,
                                             endTime := Some now \<rparr>;
                    s1 = setJob (cl_appId c) job (putClosure h (c\<lparr> compressionJob := job \<rparr>) s)
                in s1\<lparr> promises := (promises s1)(h \<mapsto> Resolved (cl_outputPath c)) \<rparr>)))"

text \<open>The handler of the archive's \<^verbatim>\<open>error\<close> event.\<close>

definition onArchiveError :: "date \<Rightarrow> string \<Rightarrow> nat \<Rightarrow> Compressor \<Rightarrow> Compressor" where
  "onArchiveError now msg h s =
     (case jobClosures s h of
        None \<Rightarrow> s
      | Some c \<Rightarrow>
          (let job = (compressionJob c)\<lparr> job_status := JobFailed, job_error := Some msg,
                                        endTime := Some now \<rparr>;
               s1 = setJob (cl_appId c) job (putClosure h (c\<lparr> compressionJob := job \<rparr>) s)
           in s1\<lparr> promises := (promises s1)(h \<mapsto> Rejected msg) \<rparr>))"

text \<open>The entry events of a compression, in order.\<close>

definition onEntries ::
  "(nat \<Rightarrow> nat \<Rightarrow> nat) \<Rightarrow> nat option list \<Rightarrow> nat \<Rightarrow> Compressor \<Rightarrow> Compressor" where
  "onEntries percent sizes h s = fold (\<lambda>sz. onEntry percent sz h) sizes s"

text \<open>The progress of the job of the compression with handle \<open>h\<close>.\<close>

definition progressOf :: "nat \<Rightarrow> Compressor \<Rightarrow> nat option" where
  "progressOf h s = map_option (\<lambda>c. job_progress (compressionJob c)) (jobClosures s h)"


text \<open>
  \<^verbatim>\<open>compressGame\<close> is an async function that suspends twice: at
  \<^verbatim>\<open>await storage.getLibraryGameByAppId(appId)\<close>, after its check of the job table and
  before it registers its job, and at \<^verbatim>\<open>await this.calculateDirectorySize(...)\<close>, after it
  has registered its job. Other calls and handlers can run while it is suspended. A call
  suspended at the first await holds the game that the lookup found when it was made; a
  call suspended at the second holds its job.
\<close>

record AtLookup =
  al_env :: CompressEnv
  al_appId :: string
  al_format :: CompressionFormat
  al_game :: "LibraryGame option"

record AtSize =
  as_env :: CompressEnv
  as_appId :: string
  as_format :: CompressionFormat
  as_job :: CompressionJob

text \<open>
  The three parts of \<^verbatim>\<open>compressGame\<close>. \<open>compressGameCheck\<close> runs when the function is
  called, up to the first await: \<open>None\<close> when it returns null at the check.
  \<open>compressGameRegister\<close> runs from the first await to the second: \<open>None\<close> when it
  returns null there. \<open>compressGameStart\<close> runs from the second await to the promise that
  the function returns. A call that nothing interleaves with is \<open>compressGame\<close> above
  (lemma \<open>compressGame_parts\<close>).
\<close>

definition compressGameCheck ::
  "CompressEnv \<Rightarrow> string \<Rightarrow> CompressionFormat \<Rightarrow> nat \<Rightarrow> Compressor \<Rightarrow> AtLookup option" where
  "compressGameCheck env a format compressionLevel s =
     (if (case map_of (activeCompressionJobs s) a of
            None \<Rightarrow> False
          | Some existingJob \<Rightarrow> nonTerminal existingJob)
      then None
      else Some \<lparr> al_env = env, al_appId = a, al_format = format,
                  al_game = map_of (libraryGamesList s) a \<rparr>)"

definition compressGameRegister :: "AtLookup \<Rightarrow> Compressor \<Rightarrow> AtSize option \<times> Compressor" where
  "compressGameRegister c s =
     (case al_game c of
        None \<Rightarrow> (None, s)
      | Some game \<Rightarrow>
          if \<not> existsSync (al_env c) (game_installPath game) then (None, s)
          else (case setupError (al_env c) of
                  Some msg \<Rightarrow> (None, snd (catchBlock (env_now (al_env c)) (al_appId c) msg s))
                | None \<Rightarrow>
                    (let job0 = \<lparr> job_appId = al_appId c, job_title = game_title game,
                                  job_status = JobPending, job_progress = 0,
                                  job_format = al_format c, startTime = env_now (al_env c),
                                  endTime = None, job_error = None,
                                  outputPath = Some (env_outputPath (al_env c)),
                                  totalBytes = None, compressedBytes = None \<rparr>;
                         s1 = setJob (al_appId c) job0 s;
                         job1 = job0\<lparr> job_status := JobCompressing \<rparr>;
                         s2 = setJob (al_appId c) job1 s1
                     in (Some \<lparr> as_env = al_env c, as_appId = al_appId c,
                                as_format = al_format c, as_job = job1 \<rparr>, s2))))"

definition compressGameStart :: "AtSize \<Rightarrow> Compressor \<Rightarrow> StartResult \<times> Compressor" where
  "compressGameStart c s =
     (case directorySize (as_env c) of
        Inl msg \<Rightarrow> catchBlock (env_now (as_env c)) (as_appId c) msg s
      | Inr nbytes \<Rightarrow>
          (let job2 = (as_job c)\<lparr> totalBytes := Some nbytes \<rparr>;
               s3 = setJob (as_appId c) job2 s;
               h = nextJob s3
           in (Started h,
               putClosure h
                 \<lparr> cl_appId = as_appId c, compressionJob = job2, processedBytes = 0,
                   cl_format = as_format c, cl_outputPath = env_outputPath (as_env c) \<rparr>
                 (s3\<lparr> nextJob := h + 1 \<rparr>))))"

text \<open>
  The compressor with the calls of \<^verbatim>\<open>compressGame\<close> in progress: the calls suspended at
  the first and at the second await, by the number of the call, and what the calls that
  have come to their end returned.

  In the source the job table and the call that created a job share one object. Here the
  table, the suspended call and the closure each hold the value of the job, and every
  handler writes its value to the table as the source does with \<^verbatim>\<open>set\<close>. The values differ
  from the shared object in one case only: after the \<^verbatim>\<open>catch\<close> block of one call has
  marked the table's entry as failed while that entry is the job of another call, the
  other call goes on from the value it holds.
\<close>

record Interleaved =
  compressor :: Compressor
  atLookup :: "nat \<rightharpoonup> AtLookup"
  atSize :: "nat \<rightharpoonup> AtSize"
  nextCall :: nat
  returned :: "nat \<rightharpoonup> StartResult"

text \<open>
  What happens to the compressor, one event at a time: a call of \<^verbatim>\<open>compressGame\<close>, the
  resumption of a suspended call at its first or at its second await, or an event of a
  started compression.
\<close>

datatype CompressorEvent =
    Call CompressEnv string CompressionFormat nat
  | ResumeLookup nat
  | ResumeSize nat
  | ArchiveEntry "nat option" nat
  | OutputClose date "string + nat" nat
  | ArchiveError date string nat

fun compressorStep ::
  "(nat \<Rightarrow> nat \<Rightarrow> nat) \<Rightarrow> (nat \<Rightarrow> string) \<Rightarrow> CompressorEvent \<Rightarrow> Interleaved \<Rightarrow> Interleaved" where
  "compressorStep percent formatBytes (Call env a format level) t =
     (let k = nextCall t
      in case compressGameCheck env a format level (compressor t) of
           None \<Rightarrow> t\<lparr> nextCall := k + 1, returned := (returned t)(k \<mapsto> NotStarted) \<rparr>
         | Some c \<Rightarrow> t\<lparr> nextCall := k + 1, atLookup := (atLookup t)(k \<mapsto> c) \<rparr>)"
| "compressorStep percent formatBytes (ResumeLookup k) t =
     (case atLookup t k of
        None \<Rightarrow> t
      | Some c \<Rightarrow>
          (case compressGameRegister c (compressor t) of
             (None, s1) \<Rightarrow>
               t\<lparr> compressor := s1, atLookup := (atLookup t)(k := None),
                   returned := (returned t)(k \<mapsto> NotStarted) \<rparr>
           | (Some c2, s2) \<Rightarrow>
               t\<lparr> compressor := s2, atLookup := (atLookup t)(k := None),
                   atSize := (atSize t)(k \<mapsto> c2) \<rparr>))"
| "compressorStep percent formatBytes (ResumeSize k) t =
     (case atSize t k of
        None \<Rightarrow> t
      | Some c \<Rightarrow>
          (case compressGameStart c (compressor t) of
             (result, s3) \<Rightarrow>
               t\<lparr> compressor := s3, atSize := (atSize t)(k := None),
                   returned := (returned t)(k \<mapsto> result) \<rparr>))"
| "compressorStep percent formatBytes (ArchiveEntry sz h) t =
     t\<lparr> compressor := onEntry percent sz h (compressor t) \<rparr>"
| "compressorStep percent formatBytes (OutputClose now stat h) t =
     t\<lparr> compressor := onOutputClose formatBytes now stat h (compressor t) \<rparr>"
| "compressorStep percent formatBytes (ArchiveError now msg h) t =
     t\<lparr> compressor := onArchiveError now msg h (compressor t) \<rparr>"

text \<open>The compressor \<open>s\<close> with no call in progress.\<close>

definition idle :: "Compressor \<Rightarrow> Interleaved" where
  "idle s = \<lparr> compressor = s, atLookup = Map.empty, atSize = Map.empty, nextCall = 0,
     returned = Map.empty \<rparr>"

text \<open>
  Two calls of \<^verbatim>\<open>compressGame\<close> for one key, the second made before the first resumes
  from \<^verbatim>\<open>await storage.getLibraryGameByAppId(appId)\<close>, as with
  \<^verbatim>\<open>Promise.all([compressGame(a), compressGame(a)])\<close>; the calls resume in the order in
  which they were made.
\<close>

definition twoCalls :: "CompressEnv \<Rightarrow> string \<Rightarrow> CompressionFormat \<Rightarrow> nat \<Rightarrow> CompressorEvent list" where
  "twoCalls env a format level =
     [Call env a format level, Call env a format level,
      ResumeLookup 0, ResumeLookup 1, ResumeSize 0, ResumeSize 1]"

text \<open>
  One call of \<^verbatim>\<open>compressGame\<close> that resumes at both awaits before anything else happens;
  \<open>k\<close> is the number of the call.
\<close>

definition wholeCall ::
  "CompressEnv \<Rightarrow> string \<Rightarrow> CompressionFormat \<Rightarrow> nat \<Rightarrow> nat \<Rightarrow> CompressorEvent list" where
  "wholeCall env a format level k = [Call env a format level, ResumeLookup k, ResumeSize k]"

text \<open>The key and the status of the job of the compression with handle \<open>h\<close>.\<close>

definition runningJob :: "nat \<Rightarrow> Compressor \<Rightarrow> (string \<times> JobStatus) option" where
  "runningJob h s =
     map_option (\<lambda>c. (cl_appId c, job_status (compressionJob c))) (jobClosures s h)"


section \<open>Notions for the proofs\<close>

text \<open>
  The position that key \<open>k\<close> ends with when the loop of \<^verbatim>\<open>updateDownloadQueue\<close> runs
  from index \<open>i\<close> and \<open>k\<close> has position \<open>cur\<close>.
\<close>

fun finalPos :: "nat \<Rightarrow> nat list \<Rightarrow> nat \<Rightarrow> nat \<Rightarrow> nat" where
  "finalPos i [] k cur = cur"
| "finalPos i (x # xs) k cur = finalPos (i + 1) xs k (if x = k then i + 1 else cur)"

definition activeRows :: "(nat \<times> Download) list \<Rightarrow> nat" where
  "activeRows dl = length (filter (\<lambda>p. status (snd p) = Downloading) dl)"

text \<open>The invariant of the scheduler under the limit \<open>m\<close>.\<close>

definition bounded :: "nat \<Rightarrow> World \<Rightarrow> bool" where
  "bounded m w = (map_option maxConcurrentDownloads (appSettings (storage w)) = Some m
     \<and> activeCount w \<le> m)"

text \<open>Every row of the table is stored under its own id.\<close>

definition keyed :: "MemStorage \<Rightarrow> bool" where
  "keyed st = list_all (\<lambda>p. id_no (snd p) = fst p) (downloadsList st)"

text \<open>What an admission pass may do to a row: nothing, or set its status to downloading.\<close>

definition started :: "Download \<Rightarrow> Download \<Rightarrow> bool" where
  "started d d' = (d' = d \<or> d' = d\<lparr> status := Downloading \<rparr>)"

text \<open>
  The invariant of a running compression \<open>h\<close> for the key \<open>a\<close> between its start and its
  end: the job of its closure is the one in the table, and its progress is below 100.
\<close>

definition inStep :: "string \<Rightarrow> nat \<Rightarrow> Compressor \<Rightarrow> bool" where
  "inStep a h s = (case jobClosures s h of
       None \<Rightarrow> False
     | Some c \<Rightarrow> cl_appId c = a \<and> job_progress (compressionJob c) \<le> 99
         \<and> getCompressionJob a s = Some (compressionJob c))"


section \<open>Example states\<close>

definition exampleRow :: "nat \<Rightarrow> string \<Rightarrow> DownloadStatus \<Rightarrow> nat \<Rightarrow> Download" where
  "exampleRow i a s pos = \<lparr> id_no = i, appId = a, title = a, status = s, totalSize = None,
     installPath = None, progress = 0, speed = ''0 MB/s'', downloaded = ''0 B'',
     timeRemaining = ''Unknown'', queuePosition = pos, dateAdded = 0, dateCompleted = None,
     errorMessage = None, completedAt = None \<rparr>"

text \<open>A storage with the given rows, in this order, and the given concurrency limit.\<close>

definition exampleStore :: "nat \<Rightarrow> Download list \<Rightarrow> MemStorage" where
  "exampleStore m ds = \<lparr> downloadsList = map (\<lambda>d. (id_no d, d)) ds,
     downloadCurrentId = length ds + 1,
     appSettings = Some \<lparr> steamCmdPath = ''steamcmd'', downloadPath = ''games'',
       maxConcurrentDownloads = m \<rparr> \<rparr>"

definition threeQueued :: MemStorage where
  "threeQueued = exampleStore 1 [exampleRow 1 ''10'' Queued 1, exampleRow 2 ''20'' Queued 2,
     exampleRow 3 ''30'' Queued 3]"

definition completedAndQueued :: MemStorage where
  "completedAndQueued =
     exampleStore 1 [exampleRow 1 ''10'' Completed 1, exampleRow 2 ''20'' Queued 2]"

text \<open>The update \<^verbatim>\<open>{ status: 'completed', dateCompleted: null }\<close>.\<close>

definition completeWithNull :: DownloadUpdate where
  "completeWithNull = noUpdate\<lparr> u_status := Some Completed, u_dateCompleted := Some None \<rparr>"

definition emptyRunner :: Runner where
  "emptyRunner = \<lparr> activeDownloads = Map.empty,
     processes = (\<lambda>h. \<lparr> killed = False, hasStdin = True, stdinData = [] \<rparr>),
     closures = Map.empty, nextProcess = 0, calls = [] \<rparr>"

definition exampleWorld :: "MemStorage \<Rightarrow> World" where
  "exampleWorld st = \<lparr> storage = st, runner = emptyRunner, activeDownloadJobs = {} \<rparr>"

definition exampleInsert :: "string \<Rightarrow> InsertDownload" where
  "exampleInsert a = \<lparr> ins_appId = a, ins_title = a, ins_totalSize = None,
     ins_installPath = None \<rparr>"

text \<open>
  Three enqueues, then a pause, a resume, a cancel and a remove, at the times 1 to 7.
\<close>

definition exampleRequests :: "(date \<times> Request) list" where
  "exampleRequests = [(1, Enqueue (Some (exampleInsert ''10''))),
     (2, Enqueue (Some (exampleInsert ''20''))), (3, Enqueue (Some (exampleInsert ''30''))),
     (4, Pause (Some 1)), (5, Resume (Some 1)), (6, Cancel (Some 2)), (7, Remove (Some 3))]"

text \<open>Entry 1 is downloading, entry 2 is queued, and the limit is 2.\<close>

definition oneActiveOneQueued :: World where
  "oneActiveOneQueued = exampleWorld (exampleStore 2
     [exampleRow 1 ''10'' Downloading 1, exampleRow 2 ''20'' Queued 2])"

text \<open>Entry 4 is paused at position 1, entry 2 queued at 2, entry 3 downloading at 3.\<close>

definition pausedQueuedActive :: World where
  "pausedQueuedActive = exampleWorld (exampleStore 1
     [exampleRow 4 ''40'' Paused 1, exampleRow 2 ''20'' Queued 2,
      exampleRow 3 ''30'' Downloading 3])"

definition exampleSettings :: Settings where
  "exampleSettings = \<lparr> steamCmdPath = ''steamcmd'', downloadPath = ''games'',
     maxConcurrentDownloads = 1 \<rparr>"

text \<open>
  The transfer of download 1 is spawned at time 0 as process 0, and at time 5 its output
  is the prompt for the Steam Guard code.
\<close>

definition guardPrompted :: Runner where
  "guardPrompted = onStdoutData (\<lambda>output. None) 5 0 ''Steam Guard code:''
     (downloadGame 0 None (Some exampleSettings) 1 ''730'' emptyRunner)"

definition exampleGame :: LibraryGame where
  "exampleGame = \<lparr> game_id = 1, game_appId = ''730'', game_title = ''CS'',
     game_installPath = ''games/730'', game_size = None, headerImage = None, iconImage = None,
     installDate = 0, isCompressed = False, compressedSize = None, compressedPath = None,
     compressionType = None, compressionDate = None \<rparr>"

definition exampleCompressor :: Compressor where
  "exampleCompressor = \<lparr> activeCompressionJobs = [], libraryGamesList = [(''730'', exampleGame)],
     jobClosures = Map.empty, nextJob = 0, promises = Map.empty \<rparr>"

definition exampleEnv :: CompressEnv where
  "exampleEnv = \<lparr> env_now = 3, existsSync = (\<lambda>p. p = ''games/730''), setupError = None,
     env_outputPath = ''games/compressed/CS_3.zip'', directorySize = Inr 200 \<rparr>"

text \<open>A percentage without rounding errors, and a plain rendering of a size.\<close>

definition exactPercent :: "nat \<Rightarrow> nat \<Rightarrow> nat" where
  "exactPercent p t = p * 100 div t"

definition plainBytes :: "nat \<Rightarrow> string" where
  "plainBytes n = showNat n @ '' Bytes''"

definition compressingJob :: CompressionJob where
  "compressingJob = \<lparr> job_appId = ''730'', job_title = ''CS'', job_status = JobCompressing,
     job_progress = 0, job_format = Zip, startTime = 3, endTime = None, job_error = None,
     outputPath = Some ''games/compressed/CS_3.zip'', totalBytes = Some 200,
     compressedBytes = None \<rparr>"

text \<open>The compressor after the compression of the example game has started.\<close>

definition compressing :: Compressor where
  "compressing = snd (compressGame exampleEnv ''730'' Zip 6 exampleCompressor)"


section \<open>Properties of the storage\<close>

lemma reorderFrom_keys: "map fst (reorderFrom i order dl) = map fst dl"
  by (induction i order dl rule: reorderFrom.induct)
     (auto split: option.splits simp: update_keys map_of_eq_None_iff)

lemma reorderFrom_map_of:
  "map_of (reorderFrom i order dl) k =
     (case map_of dl k of
        None \<Rightarrow> None
      | Some d \<Rightarrow> Some (d\<lparr> queuePosition := finalPos i order k (queuePosition d) \<rparr>))"
proof (induction i order dl rule: reorderFrom.induct)
  case (1 i dl)
  then show ?case by (simp split: option.splits)
next
  case (2 i downloadId newOrder dl)
  then show ?case by (auto simp: update_conv' split: option.splits)
qed

lemma finalPos_notin: "k \<notin> set xs \<Longrightarrow> finalPos i xs k cur = cur"
  by (induction xs arbitrary: i cur) auto

lemma finalPos_last:
  "j < length xs \<Longrightarrow> xs ! j = k \<Longrightarrow> k \<notin> set (drop (Suc j) xs) \<Longrightarrow>
   finalPos i xs k cur = i + j + 1"
proof (induction xs arbitrary: i j cur)
  case Nil
  then show ?case by simp
next
  case (Cons x xs)
  show ?case
  proof (cases j)
    case 0
    with Cons.prems show ?thesis by (simp add: finalPos_notin)
  next
    case (Suc j')
    with Cons.prems Cons.IH [of j' "i + 1"] show ?thesis by simp
  qed
qed

text \<open>
  C8, as the code has it. \<^verbatim>\<open>updateDownloadQueue\<close> returns true and keeps the keys of the
  table and their order. An id that is not in the table is skipped. Every listed id
  that is in the table, whatever the status of its row, gets the position of its last
  occurrence in the list plus one, and nothing else of the row changes; a row that is
  not listed stays as it is.
\<close>

theorem updateDownloadQueue_positions:
  "fst (updateDownloadQueue newOrder st)
   \<and> map fst (downloadsList (snd (updateDownloadQueue newOrder st))) = map fst (downloadsList st)
   \<and> (getDownloadById k st = None \<longrightarrow>
        getDownloadById k (snd (updateDownloadQueue newOrder st)) = None)
   \<and> (k \<notin> set newOrder \<longrightarrow>
        getDownloadById k (snd (updateDownloadQueue newOrder st)) = getDownloadById k st)
   \<and> (getDownloadById k st = Some d \<and> j < length newOrder \<and> newOrder ! j = k
        \<and> k \<notin> set (drop (Suc j) newOrder) \<longrightarrow>
        getDownloadById k (snd (updateDownloadQueue newOrder st))
          = Some (d\<lparr> queuePosition := j + 1 \<rparr>))"
  by (auto simp: updateDownloadQueue_def getDownloadById_def reorderFrom_keys
        reorderFrom_map_of finalPos_notin finalPos_last split: option.splits)

text \<open>
  The example of the claim: \<^verbatim>\<open>reorder([3,1,2])\<close> on the queued entries 1, 2, 3 gives the
  positions 3:1, 1:2, 2:3; an id that is not in the table is skipped, and an entry that
  is not listed stays where it is.
\<close>

theorem updateDownloadQueue_positions_witness:
  "getDownloadById 3 (snd (updateDownloadQueue [3, 1, 2] threeQueued))
     = Some (exampleRow 3 ''30'' Queued 1)
   \<and> getDownloadById 1 (snd (updateDownloadQueue [3, 1, 2] threeQueued))
     = Some (exampleRow 1 ''10'' Queued 2)
   \<and> getDownloadById 2 (snd (updateDownloadQueue [3, 1, 2] threeQueued))
     = Some (exampleRow 2 ''20'' Queued 3)
   \<and> getDownloadById 4 (snd (updateDownloadQueue [3, 4, 1, 2] threeQueued)) = None
   \<and> getDownloadById 2 (snd (updateDownloadQueue [3] threeQueued))
     = Some (exampleRow 2 ''20'' Queued 2)"
  using updateDownloadQueue_positions [of "[3, 1, 2]" threeQueued 3 "exampleRow 3 ''30'' Queued 3" 0]
    updateDownloadQueue_positions [of "[3]" threeQueued 2 "exampleRow 2 ''20'' Queued 2" 0]
    updateDownloadQueue_positions [of "[3, 1, 2]" threeQueued 1 "exampleRow 1 ''10'' Queued 1" 1]
    updateDownloadQueue_positions [of "[3, 1, 2]" threeQueued 2 "exampleRow 2 ''20'' Queued 2" 2]
    updateDownloadQueue_positions [of "[3, 4, 1, 2]" threeQueued 4]
  by (simp add: threeQueued_def exampleStore_def exampleRow_def getDownloadById_def)

text \<open>
  C8 as the spec states it fails: a listed id whose row is not queued is not ignored.
  Entry 1 is completed, at position 1; \<^verbatim>\<open>reorder([2,1])\<close> moves it to position 2.
\<close>

theorem updateDownloadQueue_moves_completed:
  "map_option status (getDownloadById 1 completedAndQueued) = Some Completed
   \<and> map_option queuePosition (getDownloadById 1 completedAndQueued) = Some 1
   \<and> map_option queuePosition
        (getDownloadById 1 (snd (updateDownloadQueue [2, 1] completedAndQueued))) = Some 2"
  by (simp add: completedAndQueued_def exampleStore_def exampleRow_def getDownloadById_def
        updateDownloadQueue_def)


section \<open>Properties of \<^verbatim>\<open>updateDownload\<close>\<close>

lemma updatedRow_fields:
  "id_no (updatedRow now d u) = orElse (u_id u) (id_no d)"
  "appId (updatedRow now d u) = orElse (u_appId u) (appId d)"
  "title (updatedRow now d u) = orElse (u_title u) (title d)"
  "status (updatedRow now d u) = orElse (u_status u) (status d)"
  "totalSize (updatedRow now d u) = orElse (u_totalSize u) (totalSize d)"
  "installPath (updatedRow now d u) = orElse (u_installPath u) (installPath d)"
  "progress (updatedRow now d u) = orElse (u_progress u) (progress d)"
  "speed (updatedRow now d u) = orElse (u_speed u) (speed d)"
  "downloaded (updatedRow now d u) = orElse (u_downloaded u) (downloaded d)"
  "timeRemaining (updatedRow now d u) = orElse (u_timeRemaining u) (timeRemaining d)"
  "queuePosition (updatedRow now d u) = orElse (u_queuePosition u) (queuePosition d)"
  "dateAdded (updatedRow now d u) = orElse (u_dateAdded u) (dateAdded d)"
  "errorMessage (updatedRow now d u) = orElse (u_errorMessage u) (errorMessage d)"
  "completedAt (updatedRow now d u) = orElse (u_completedAt u) (completedAt d)"
  "dateCompleted (updatedRow now d u) =
     (if u_status u = Some Completed \<and> noDateCompleted u then Some now
      else orElse (u_dateCompleted u) (dateCompleted d))"
  by (simp_all add: updatedRow_def spread_def Let_def)

lemma updateDownload_found:
  "getDownloadById i st = Some d \<Longrightarrow>
   updateDownload now i u st =
     (Some (updatedRow now d u),
      st\<lparr> downloadsList := AList.update i (updatedRow now d u) (downloadsList st) \<rparr>)"
  by (simp add: updateDownload_def getDownloadById_def Let_def)

lemma updateDownload_missing:
  "getDownloadById i st = None \<Longrightarrow> updateDownload now i u st = (None, st)"
  by (simp add: updateDownload_def getDownloadById_def)

lemma updateDownload_other:
  "k \<noteq> i \<Longrightarrow> getDownloadById k (snd (updateDownload now i u st)) = getDownloadById k st"
  by (simp add: updateDownload_def getDownloadById_def update_conv' Let_def split: option.splits)

lemma updateDownload_keys:
  "map fst (downloadsList (snd (updateDownload now i u st))) = map fst (downloadsList st)"
  by (auto simp: updateDownload_def update_keys map_of_eq_None_iff Let_def split: option.splits)

lemma updateDownload_rest:
  "downloadCurrentId (snd (updateDownload now i u st)) = downloadCurrentId st"
  "appSettings (snd (updateDownload now i u st)) = appSettings st"
  by (simp_all add: updateDownload_def Let_def split: option.splits)

lemma updateDownload_same:
  "getDownloadById i st = Some d \<Longrightarrow>
   getDownloadById i (snd (updateDownload now i u st)) = Some (updatedRow now d u)"
  by (simp add: updateDownload_found) (simp add: getDownloadById_def update_conv')

text \<open>
  C9, as the code has it. When the table has no row for the id, \<^verbatim>\<open>updateDownload\<close>
  returns undefined and the storage is unchanged. Otherwise it returns and stores, under
  the same key, a row in which every field that the update names has the update's value
  and every other field its previous value, but for \<^verbatim>\<open>dateCompleted\<close>: that is the
  current time when the update sets the status to completed and its own
  \<^verbatim>\<open>dateCompleted\<close> is missing or null. The other rows, the order of the keys, the id
  counter and the settings stay as they are.
\<close>

theorem updateDownload_frame:
  "(getDownloadById i st = None \<longrightarrow> updateDownload now i u st = (None, st))
   \<and> (k \<noteq> i \<longrightarrow> getDownloadById k (snd (updateDownload now i u st)) = getDownloadById k st)
   \<and> map fst (downloadsList (snd (updateDownload now i u st))) = map fst (downloadsList st)
   \<and> downloadCurrentId (snd (updateDownload now i u st)) = downloadCurrentId st
   \<and> appSettings (snd (updateDownload now i u st)) = appSettings st
   \<and> (getDownloadById i st = Some d \<and> d' = updatedRow now d u \<longrightarrow>
        fst (updateDownload now i u st) = Some d'
        \<and> getDownloadById i (snd (updateDownload now i u st)) = Some d'
        \<and> id_no d' = orElse (u_id u) (id_no d)
        \<and> appId d' = orElse (u_appId u) (appId d)
        \<and> title d' = orElse (u_title u) (title d)
        \<and> status d' = orElse (u_status u) (status d)
        \<and> totalSize d' = orElse (u_totalSize u) (totalSize d)
        \<and> installPath d' = orElse (u_installPath u) (installPath d)
        \<and> progress d' = orElse (u_progress u) (progress d)
        \<and> speed d' = orElse (u_speed u) (speed d)
        \<and> downloaded d' = orElse (u_downloaded u) (downloaded d)
        \<and> timeRemaining d' = orElse (u_timeRemaining u) (timeRemaining d)
        \<and> queuePosition d' = orElse (u_queuePosition u) (queuePosition d)
        \<and> dateAdded d' = orElse (u_dateAdded u) (dateAdded d)
        \<and> errorMessage d' = orElse (u_errorMessage u) (errorMessage d)
        \<and> completedAt d' = orElse (u_completedAt u) (completedAt d)
        \<and> dateCompleted d' =
            (if u_status u = Some Completed
                \<and> (u_dateCompleted u = None \<or> u_dateCompleted u = Some None)
             then Some now
             else orElse (u_dateCompleted u) (dateCompleted d)))"
proof -
  have nd: "noDateCompleted u = (u_dateCompleted u = None \<or> u_dateCompleted u = Some None)"
    by (simp add: noDateCompleted_def split: option.splits)
  have found: "getDownloadById i st = Some d \<Longrightarrow>
      fst (updateDownload now i u st) = Some (updatedRow now d u)"
    by (simp add: updateDownload_found)
  show ?thesis
  proof (intro conjI impI)
    assume "getDownloadById i st = None"
    then show "updateDownload now i u st = (None, st)"
      by (rule updateDownload_missing)
  next
    assume "k \<noteq> i"
    then show "getDownloadById k (snd (updateDownload now i u st)) = getDownloadById k st"
      by (rule updateDownload_other)
  next
    assume "getDownloadById i st = Some d \<and> d' = updatedRow now d u"
    then show "fst (updateDownload now i u st) = Some d'"
      by (simp add: found)
  next
    assume "getDownloadById i st = Some d \<and> d' = updatedRow now d u"
    then show "getDownloadById i (snd (updateDownload now i u st)) = Some d'"
      by (simp add: updateDownload_same)
  qed (simp_all add: updateDownload_keys updateDownload_rest updatedRow_fields nd)
qed

lemma threeQueued_rows:
  "getDownloadById 2 threeQueued = Some (exampleRow 2 ''20'' Queued 2)"
  "getDownloadById 3 threeQueued = Some (exampleRow 3 ''30'' Queued 3)"
  "getDownloadById 7 threeQueued = None"
  by (simp_all add: threeQueued_def exampleStore_def exampleRow_def getDownloadById_def)

lemma updatedRow_example:
  "updatedRow 42 (exampleRow 2 ''20'' Queued 2) (statusUpdate Completed)
     = (exampleRow 2 ''20'' Completed 2)\<lparr> dateCompleted := Some 42 \<rparr>"
  by (simp add: exampleRow_def statusUpdate_def noUpdate_def updatedRow_def spread_def
        orElse_def noDateCompleted_def)

theorem updateDownload_frame_witness:
  "fst (updateDownload 42 2 (statusUpdate Completed) threeQueued)
     = Some ((exampleRow 2 ''20'' Completed 2)\<lparr> dateCompleted := Some 42 \<rparr>)
   \<and> getDownloadById 3 (snd (updateDownload 42 2 (statusUpdate Completed) threeQueued))
     = Some (exampleRow 3 ''30'' Queued 3)
   \<and> updateDownload 42 7 (statusUpdate Completed) threeQueued = (None, threeQueued)"
  using updateDownload_frame [of 2 threeQueued 42 "statusUpdate Completed" 3
      "exampleRow 2 ''20'' Queued 2"
      "updatedRow 42 (exampleRow 2 ''20'' Queued 2) (statusUpdate Completed)"]
    updateDownload_frame [of 7 threeQueued 42 "statusUpdate Completed" 7
      "exampleRow 2 ''20'' Queued 2" "exampleRow 2 ''20'' Queued 2"]
  by (simp add: updatedRow_example threeQueued_rows)

text \<open>
  C9 as stated fails where the update supplies \<^verbatim>\<open>dateCompleted\<close> itself, as null: with
  \<^verbatim>\<open>{ status: 'completed', dateCompleted: null }\<close> at time 42 the stored date is 42, not
  the null that the update supplies.
\<close>

theorem updateDownload_null_dateCompleted:
  "u_status completeWithNull = Some Completed
   \<and> u_dateCompleted completeWithNull = Some None
   \<and> map_option dateCompleted (getDownloadById 2 threeQueued) = Some None
   \<and> map_option dateCompleted (fst (updateDownload 42 2 completeWithNull threeQueued))
       = Some (Some 42)"
  by (simp add: threeQueued_def exampleStore_def exampleRow_def getDownloadById_def
        completeWithNull_def noUpdate_def updateDownload_def updatedRow_def spread_def
        orElse_def noDateCompleted_def Let_def)


section \<open>Properties of the transfer runner\<close>

text \<open>
  C10. \<^verbatim>\<open>pauseDownload\<close> is \<^verbatim>\<open>cancelDownload\<close>. Either returns true exactly when the
  registry has an entry for the id; it then kills the process of the entry, and in any
  case the registry has no entry for the id afterwards and nothing else changes when
  there was none. A second call right after the first returns false.
\<close>

theorem pauseDownload_is_cancelDownload:
  "pauseDownload downloadId r = cancelDownload downloadId r
   \<and> fst (cancelDownload downloadId r) = (activeDownloads r downloadId \<noteq> None)
   \<and> activeDownloads (snd (cancelDownload downloadId r)) downloadId = None
   \<and> (case activeDownloads r downloadId of
         None \<Rightarrow> snd (cancelDownload downloadId r) = r
       | Some e \<Rightarrow> killed (processes (snd (cancelDownload downloadId r)) (e_process e)))
   \<and> fst (cancelDownload downloadId (snd (cancelDownload downloadId r))) = False
   \<and> fst (pauseDownload downloadId (snd (pauseDownload downloadId r))) = False"
  by (simp add: pauseDownload_def cancelDownload_def kill_def split: option.splits)


lemma invoke_fields:
  "calls (invoke i cb r) = calls r @ [(i, cb)]"
  "processes (invoke i cb r) = processes r"
  "activeDownloads (invoke i cb r) = activeDownloads r"
  "closures (invoke i cb r) = closures r"
  by (simp_all add: invoke_def)

lemma kill_fields:
  "calls (kill h r) = calls r"
  "killed (processes (kill h r) h)"
  "activeDownloads (kill h r) = activeDownloads r"
  "closures (kill h r) = closures r"
  by (simp_all add: kill_def)

lemma onStdoutData_guard:
  assumes "closures r h = Some c" and "str_includes output ''Steam Guard code:''"
  shows "killed (processes (onStdoutData parse now h output r) h)"
    and "last (calls (onStdoutData parse now h output r))
           = (c_downloadId c, OnError ''Steam Guard code required'')"
    and "map_option c_downloadId (closures (onStdoutData parse now h output r) h)
           = Some (c_downloadId c)"
  using assms
  by (simp_all add: onStdoutData_def Let_def invoke_fields kill_fields split: option.splits)

lemma onClose_registry:
  "closures r h = Some c \<Longrightarrow> activeDownloads (onClose code h r) (c_downloadId c) = None"
  by (simp add: onClose_def Let_def invoke_fields)

lemma submitSteamGuard_unregistered:
  "activeDownloads r i = None \<Longrightarrow> submitSteamGuard i code r = (False, r)"
  by (simp add: submitSteamGuard_def)

text \<open>
  C4, what the code does instead. When the output of a spawned transfer contains the
  prompt \<^verbatim>\<open>Steam Guard code:\<close>, the stdout handler reports it through the error callback,
  with the message \<^verbatim>\<open>Steam Guard code required\<close>, and kills the process. Once the process
  has exited, whatever its exit code, the registry has no entry for the download, and
  \<^verbatim>\<open>submitSteamGuard\<close> returns false and writes nothing.
\<close>

theorem steam_guard_prompt_kills_transfer:
  assumes "closures r h = Some c" and "str_includes output ''Steam Guard code:''"
    and "r1 = onStdoutData parse now h output r"
  shows "killed (processes r1 h)
     \<and> last (calls r1) = (c_downloadId c, OnError ''Steam Guard code required'')
     \<and> activeDownloads (onClose exitCode h r1) (c_downloadId c) = None
     \<and> submitSteamGuard (c_downloadId c) code (onClose exitCode h r1)
         = (False, onClose exitCode h r1)"
proof -
  obtain c1 where c1: "closures r1 h = Some c1" "c_downloadId c1 = c_downloadId c"
    using onStdoutData_guard(3) [OF assms(1,2), of parse now] assms(3) by auto
  have reg: "activeDownloads (onClose exitCode h r1) (c_downloadId c) = None"
    using onClose_registry [OF c1(1), of exitCode] c1(2) by simp
  show ?thesis
    using onStdoutData_guard(1,2) [OF assms(1,2), of parse now] assms(3) reg
    by (simp add: submitSteamGuard_unregistered)
qed

lemma guard_closure:
  "closures (downloadGame 0 None (Some exampleSettings) 1 ''730'' emptyRunner) 0
     = Some \<lparr> c_downloadId = 1, c_appId = ''730'', stdoutData = [], lastProgressUpdate = 0 \<rparr>"
  by (simp add: downloadGame_def emptyRunner_def Let_def)

lemma guard_includes: "str_includes ''Steam Guard code:'' ''Steam Guard code:''"
  by simp

lemma guard_calls:
  "calls guardPrompted = [(1, OnError ''Steam Guard code required'')]"
  "calls (onClose None 0 guardPrompted)
     = [(1, OnError ''Steam Guard code required''),
        (1, OnError ''Download failed with code null'')]"
  by (simp_all add: guardPrompted_def onStdoutData_def onClose_def downloadGame_def
        emptyRunner_def Let_def invoke_def kill_def)

text \<open>
  The failing input of C4: download 1 runs as process 0 and prints the prompt. The error
  callback is invoked, the process is killed, its exit invokes the error callback again,
  and the code \<^verbatim>\<open>12345\<close> is not accepted.
\<close>

theorem steam_guard_prompt_kills_transfer_witness:
  "calls guardPrompted = [(1, OnError ''Steam Guard code required'')]
   \<and> killed (processes guardPrompted 0)
   \<and> calls (onClose None 0 guardPrompted)
       = [(1, OnError ''Steam Guard code required''),
          (1, OnError ''Download failed with code null'')]
   \<and> fst (submitSteamGuard 1 ''12345'' (onClose None 0 guardPrompted)) = False"
  using steam_guard_prompt_kills_transfer [OF guard_closure guard_includes,
      of guardPrompted "\<lambda>output. None" 5 None "''12345''"] guard_calls
  by (simp add: guardPrompted_def)

section \<open>Properties of the queue scheduler\<close>

subsection \<open>Counting the active rows\<close>

lemma activeCount_activeRows: "activeCount w = activeRows (downloadsList (storage w))"
  by (simp add: activeCount_def activeRows_def rows_def filter_map comp_def)

lemma activeRows_update_le: "activeRows (AList.update i v dl) \<le> Suc (activeRows dl)"
  by (induction dl) (auto simp: activeRows_def)

lemma activeRows_update_inactive:
  "status v \<noteq> Downloading \<Longrightarrow> activeRows (AList.update i v dl) \<le> activeRows dl"
  by (induction dl) (auto simp: activeRows_def)

lemma activeRows_delete: "activeRows (AList.delete i dl) \<le> activeRows dl"
  by (induction dl) (auto simp: activeRows_def)

lemma updateDownload_active_le:
  "activeRows (downloadsList (snd (updateDownload now i u st)))
     \<le> Suc (activeRows (downloadsList st))"
  by (simp add: updateDownload_def Let_def activeRows_update_le split: option.splits)

lemma updateDownload_inactive:
  "u_status u = Some s \<Longrightarrow> s \<noteq> Downloading \<Longrightarrow>
   activeRows (downloadsList (snd (updateDownload now i u st))) \<le> activeRows (downloadsList st)"
  by (auto simp: updateDownload_def Let_def updatedRow_fields orElse_def
        intro!: activeRows_update_inactive split: option.splits)

lemma createDownload_active:
  "activeRows (downloadsList (snd (createDownload now data st))) \<le> activeRows (downloadsList st)"
  by (simp add: createDownload_def Let_def activeRows_update_inactive)

lemma createDownload_settings:
  "appSettings (snd (createDownload now data st)) = appSettings st"
  by (simp add: createDownload_def Let_def)

lemma deleteDownload_active:
  "activeRows (downloadsList (deleteDownload i st)) \<le> activeRows (downloadsList st)"
  by (simp add: deleteDownload_def removeDownload_def activeRows_delete)

lemma deleteDownload_settings: "appSettings (deleteDownload i st) = appSettings st"
  by (simp add: deleteDownload_def removeDownload_def)

lemma stopIfActive_storage: "storage (stopIfActive i d w) = storage w"
  by (simp add: stopIfActive_def)

subsection \<open>The admission pass\<close>

lemma startDownload_storage:
  "storage (startDownload now i w)
     = snd (updateDownload now i (statusUpdate Downloading) (storage w))"
  by (auto simp: startDownload_def Let_def updateDownload_missing split: option.splits)

lemma startDownload_active: "activeCount (startDownload now i w) \<le> Suc (activeCount w)"
  by (simp add: activeCount_activeRows startDownload_storage updateDownload_active_le)

lemma startDownload_settings:
  "appSettings (storage (startDownload now i w)) = appSettings (storage w)"
  by (simp add: startDownload_storage updateDownload_rest)

lemma fold_startDownload_active:
  "activeCount (fold (\<lambda>download. startDownload now (id_no download)) ds w)
     \<le> activeCount w + length ds"
proof (induction ds arbitrary: w)
  case Nil
  then show ?case by simp
next
  case (Cons d ds)
  have "activeCount (fold (\<lambda>download. startDownload now (id_no download)) ds
          (startDownload now (id_no d) w))
      \<le> activeCount (startDownload now (id_no d) w) + length ds"
    by (rule Cons.IH)
  also have "\<dots> \<le> Suc (activeCount w) + length ds"
    using startDownload_active [of now "id_no d" w] by simp
  finally show ?case by simp
qed

lemma fold_startDownload_settings:
  "appSettings (storage (fold (\<lambda>download. startDownload now (id_no download)) ds w))
     = appSettings (storage w)"
  by (induction ds arbitrary: w) (simp_all add: startDownload_settings)

lemma getActiveDownloads_length: "length (getActiveDownloads (storage w)) = activeCount w"
  by (simp add: getActiveDownloads_def activeCount_def)

lemma processDownloadQueue_blocked:
  "0 < activeCount w \<Longrightarrow> processDownloadQueue now w = w"
  by (simp add: processDownloadQueue_def getActiveDownloads_length)

lemma processDownloadQueue_settings:
  "appSettings (storage (processDownloadQueue now w)) = appSettings (storage w)"
  by (simp add: processDownloadQueue_def Let_def fold_startDownload_settings
        split: option.splits)

lemma processDownloadQueue_bound:
  assumes "appSettings (storage w) = Some s" and "maxConcurrentDownloads s = m"
    and "1 \<le> m" and "activeCount w \<le> m"
  shows "activeCount (processDownloadQueue now w) \<le> m"
proof (cases "0 < activeCount w")
  case True
  then show ?thesis using assms(4) by (simp add: processDownloadQueue_blocked)
next
  case False
  then have z: "activeCount w = 0" by simp
  have "activeCount (fold (\<lambda>download. startDownload now (id_no download))
          (take m (getQueuedDownloads (storage w))) w)
      \<le> activeCount w + length (take m (getQueuedDownloads (storage w)))"
    by (rule fold_startDownload_active)
  also have "\<dots> \<le> m" using z by simp
  finally show ?thesis
    using assms z
    by (simp add: processDownloadQueue_def getActiveDownloads_length getSettings_def Let_def)
qed

lemma bounded_pass:
  assumes "1 \<le> m"
    and "map_option maxConcurrentDownloads (appSettings (storage w1)) = Some m"
    and "activeCount w1 \<le> m"
  shows "bounded m (processDownloadQueue now w1)"
proof -
  from assms(2) obtain s
    where s: "appSettings (storage w1) = Some s" "maxConcurrentDownloads s = m"
    by (cases "appSettings (storage w1)") auto
  have "activeCount (processDownloadQueue now w1) \<le> m"
    using s assms(1,3) by (rule processDownloadQueue_bound)
  then show ?thesis
    using assms(2) by (simp add: bounded_def processDownloadQueue_settings)
qed

subsection \<open>The handlers keep the invariant\<close>

lemma update_step_bounded:
  assumes "1 \<le> m" and "bounded m w" and "u_status u = Some s" and "s \<noteq> Downloading"
    and "storage w1 = snd (updateDownload t i u (storage w))"
  shows "bounded m (processDownloadQueue now w1)"
proof -
  have "activeCount w1 \<le> m"
    using assms(2,5) updateDownload_inactive [OF assms(3,4), of t i "storage w"]
    by (simp add: bounded_def activeCount_activeRows)
  moreover have "map_option maxConcurrentDownloads (appSettings (storage w1)) = Some m"
    using assms(2,5) by (simp add: bounded_def updateDownload_rest)
  ultimately show ?thesis using assms(1) by (simp add: bounded_pass)
qed

lemma postDownloads_bounded:
  assumes "1 \<le> m" and "bounded m w"
  shows "bounded m (snd (postDownloads now body w))"
proof (cases body)
  case None
  then show ?thesis using assms(2) by (simp add: postDownloads_def)
next
  case (Some downloadData)
  note body = this
  show ?thesis
  proof (cases "getDownloadByAppId (ins_appId downloadData) (storage w)")
    case (Some e)
    then show ?thesis using assms(2) body by (simp add: postDownloads_def)
  next
    case None
    let ?w1 = "w\<lparr> storage := snd (createDownload now downloadData (storage w)) \<rparr>"
    have "activeCount ?w1 \<le> m"
      using assms(2) createDownload_active [of now downloadData "storage w"]
      by (simp add: bounded_def activeCount_activeRows)
    moreover have "map_option maxConcurrentDownloads (appSettings (storage ?w1)) = Some m"
      using assms(2) by (simp add: bounded_def createDownload_settings)
    ultimately have "bounded m (processDownloadQueue now ?w1)"
      using assms(1) by (simp add: bounded_pass)
    then show ?thesis
      using None body by (simp add: postDownloads_def split_beta Let_def)
  qed
qed

lemma postPause_bounded:
  assumes "1 \<le> m" and "bounded m w"
  shows "bounded m (snd (postPause now i w))"
  using assms(2)
  by (auto simp: postPause_def Let_def split_beta statusUpdate_def split: option.splits
        intro!: update_step_bounded [OF assms, of _ Paused])

lemma postResume_bounded:
  assumes "1 \<le> m" and "bounded m w"
  shows "bounded m (snd (postResume now i w))"
  using assms(2)
  by (auto simp: postResume_def Let_def split_beta resumeUpdate_def split: option.splits
        intro!: update_step_bounded [OF assms, of _ Queued])

lemma postCancel_bounded:
  assumes "1 \<le> m" and "bounded m w"
  shows "bounded m (snd (postCancel now i w))"
  using assms(2)
  by (auto simp: postCancel_def Let_def split_beta statusUpdate_def stopIfActive_storage
        split: option.splits intro!: update_step_bounded [OF assms, of _ Canceled])

lemma deleteDownloads_bounded:
  assumes "1 \<le> m" and "bounded m w"
  shows "bounded m (snd (deleteDownloads now i w))"
proof -
  have "bounded m (processDownloadQueue now w1)"
    if "storage w1 = deleteDownload k (storage w)" for w1 k
  proof -
    have "activeCount w1 \<le> m"
      using assms(2) that deleteDownload_active [of k "storage w"]
      by (simp add: bounded_def activeCount_activeRows)
    moreover have "map_option maxConcurrentDownloads (appSettings (storage w1)) = Some m"
      using assms(2) that by (simp add: bounded_def deleteDownload_settings)
    ultimately show ?thesis using assms(1) by (simp add: bounded_pass)
  qed
  then show ?thesis
    using assms(2)
    by (auto simp: deleteDownloads_def Let_def stopIfActive_storage split: option.splits)
qed

lemma onTransferSettled_bounded:
  assumes "1 \<le> m" and "bounded m w"
  shows "bounded m (onTransferSettled now i ok w)"
proof (cases ok)
  case True
  show ?thesis
    unfolding onTransferSettled_def Let_def
    by (rule update_step_bounded [OF assms, of _ Completed]) (simp_all add: True)
next
  case False
  show ?thesis
    unfolding onTransferSettled_def Let_def
    by (rule update_step_bounded [OF assms, of _ Failed]) (simp_all add: False failedUpdate_def)
qed

lemma onTransferRejected_bounded:
  assumes "1 \<le> m" and "bounded m w"
  shows "bounded m (onTransferRejected now i msg w)"
  unfolding onTransferRejected_def Let_def
  by (rule update_step_bounded [OF assms, of _ Failed]) (simp_all add: failedUpdate_def)

lemma handle_bounded:
  assumes "1 \<le> m" and "bounded m w"
  shows "bounded m (handle now req w)"
  using assms
  by (cases req)
     (simp_all add: postDownloads_bounded postPause_bounded postResume_bounded
        postCancel_bounded deleteDownloads_bounded onTransferSettled_bounded
        onTransferRejected_bounded)

lemma processDownloadQueue_toStart:
  "processDownloadQueue now w
     = fold (\<lambda>download. startDownload now (id_no download)) (toStart w) w"
  by (auto simp: processDownloadQueue_def toStart_def Let_def split: option.splits)

lemma last_passSteps: "last (w # passSteps now w) = processDownloadQueue now w"
proof (cases "toStart w")
  case Nil
  then show ?thesis by (simp add: passSteps_def processDownloadQueue_toStart)
next
  case (Cons d ds)
  then have n: "[1 ..< Suc (length (toStart w))] = [1 ..< length (toStart w)] @ [length (toStart w)]"
    by simp
  have "last (passSteps now w)
      = fold (\<lambda>download. startDownload now (id_no download)) (toStart w) w"
    unfolding passSteps_def n by simp
  moreover have "passSteps now w \<noteq> []"
    unfolding passSteps_def n by simp
  ultimately show ?thesis by (simp add: processDownloadQueue_toStart)
qed

lemma handle_beforePass:
  "handle now req w =
     (case beforePass now req w of None \<Rightarrow> w | Some w1 \<Rightarrow> processDownloadQueue now w1)"
proof (cases req)
  case (Enqueue body)
  then show ?thesis
    by (auto simp: postDownloads_def Let_def split_beta split: option.splits)
next
  case (Pause i)
  then show ?thesis
    by (auto simp: postPause_def Let_def split_beta split: option.splits)
next
  case (Resume i)
  then show ?thesis
    by (auto simp: postResume_def Let_def split_beta split: option.splits)
next
  case (Cancel i)
  then show ?thesis
    by (auto simp: postCancel_def Let_def split_beta stopIfActive_storage split: option.splits)
next
  case (Remove i)
  then show ?thesis
    by (auto simp: deleteDownloads_def Let_def split_beta stopIfActive_storage
          split: option.splits)
next
  case (TransferSettled i ok)
  then show ?thesis by (simp add: onTransferSettled_def Let_def)
next
  case (TransferRejected i msg)
  then show ?thesis by (simp add: onTransferRejected_def Let_def)
qed

lemma last_points: "last (points now req w) = handle now req w"
  using last_passSteps
  by (auto simp: points_def handle_beforePass split: option.splits)

lemma points_nonempty: "points now req w \<noteq> []"
  by (simp add: points_def split: option.splits)

lemma run_subset_runPoints: "set (run reqs w) \<subseteq> set (runPoints reqs w)"
proof (induction reqs arbitrary: w)
  case Nil
  then show ?case by simp
next
  case (Cons r reqs)
  obtain now req where r: "r = (now, req)" by (cases r)
  have "handle now req w \<in> set (points now req w)"
    using last_in_set [OF points_nonempty, of now req w] by (simp add: last_points)
  then show ?case using Cons.IH [of "handle now req w"] r by auto
qed

lemma beforePass_bounded:
  assumes "bounded m w" and "beforePass now req w = Some w1"
  shows "bounded m w1"
proof -
  have le: "bounded m v"
    if "activeRows (downloadsList (storage v)) \<le> activeRows (downloadsList (storage w))"
      and "appSettings (storage v) = appSettings (storage w)" for v
    using assms(1) that by (simp add: bounded_def activeCount_activeRows)
  have upd: "bounded m v"
    if "storage v = snd (updateDownload t i u (storage w))" and "u_status u = Some s"
      and "s \<noteq> Downloading" for v t i u s
    using that updateDownload_inactive [of u s t i "storage w"]
    by (intro le) (simp_all add: updateDownload_rest)
  show ?thesis
  proof (cases req)
    case (Enqueue body)
    then show ?thesis
      using assms(2)
      by (auto split: option.splits intro!: le
            simp: createDownload_active createDownload_settings)
  next
    case (Pause i)
    then show ?thesis
      using assms(2)
      by (auto split: option.splits if_splits intro!: upd [of _ _ _ _ Paused]
            simp: statusUpdate_def)
  next
    case (Resume i)
    then show ?thesis
      using assms(2)
      by (auto split: option.splits if_splits intro!: upd [of _ _ _ _ Queued]
            simp: resumeUpdate_def)
  next
    case (Cancel i)
    then show ?thesis
      using assms(2)
      by (auto split: option.splits if_splits intro!: upd [of _ _ _ _ Canceled]
            simp: statusUpdate_def)
  next
    case (Remove i)
    then show ?thesis
      using assms(2)
      by (auto split: option.splits intro!: le
            simp: deleteDownload_active deleteDownload_settings)
  next
    case (TransferSettled i ok)
    show ?thesis
    proof (cases ok)
      case True
      then show ?thesis
        using assms(2) TransferSettled by (auto intro!: upd [of _ _ _ _ Completed])
    next
      case False
      then show ?thesis
        using assms(2) TransferSettled
        by (auto intro!: upd [of _ _ _ _ Failed] simp: failedUpdate_def)
    qed
  next
    case (TransferRejected i msg)
    then show ?thesis
      using assms(2) by (auto intro!: upd [of _ _ _ _ Failed] simp: failedUpdate_def)
  qed
qed

lemma toStart_length:
  assumes "map_option maxConcurrentDownloads (appSettings (storage w)) = Some m" and "1 \<le> m"
  shows "length (toStart w) \<le> m"
  using assms by (auto simp: toStart_def getSettings_def split: option.splits)

lemma toStart_idle: "toStart w \<noteq> [] \<Longrightarrow> activeCount w = 0"
  by (auto simp: toStart_def getActiveDownloads_length split: if_splits)

lemma passSteps_bounded:
  assumes "1 \<le> m" and "bounded m w" and "w' \<in> set (passSteps now w)"
  shows "bounded m w'"
proof -
  from assms(3) obtain n
    where w': "w' = fold (\<lambda>download. startDownload now (id_no download)) (take n (toStart w)) w"
      and n: "1 \<le> n" "n \<le> length (toStart w)"
    by (auto simp: passSteps_def)
  from n have "toStart w \<noteq> []" by auto
  then have z: "activeCount w = 0" by (rule toStart_idle)
  have m: "length (toStart w) \<le> m"
    using assms(1,2) by (simp add: toStart_length bounded_def)
  have "activeCount w' \<le> activeCount w + length (take n (toStart w))"
    unfolding w' by (rule fold_startDownload_active)
  also have "\<dots> \<le> m" using z n m by simp
  finally show ?thesis
    using assms(2) by (simp add: bounded_def w' fold_startDownload_settings)
qed

lemma points_bounded:
  assumes "1 \<le> m" and "bounded m w" and "w' \<in> set (points now req w)"
  shows "bounded m w'"
proof (cases "beforePass now req w")
  case None
  then show ?thesis using assms(2,3) by (simp add: points_def)
next
  case (Some w1)
  have b: "bounded m w1" using assms(2) Some by (rule beforePass_bounded)
  from assms(3) Some have "w' = w1 \<or> w' \<in> set (passSteps now w1)"
    by (simp add: points_def)
  then show ?thesis using b passSteps_bounded [OF assms(1) b] by blast
qed

lemma runPoints_bounded:
  assumes "1 \<le> m"
  shows "bounded m w \<Longrightarrow> w' \<in> set (runPoints reqs w) \<Longrightarrow> bounded m w'"
proof (induction reqs arbitrary: w)
  case Nil
  then show ?case by simp
next
  case (Cons r reqs)
  obtain now req where r: "r = (now, req)" by (cases r)
  have b: "bounded m (handle now req w)"
    using assms Cons.prems(1) by (rule handle_bounded)
  from Cons.prems(2) r
  have "w' \<in> set (points now req w) \<or> w' \<in> set (runPoints reqs (handle now req w))"
    by simp
  then show ?case
    using points_bounded [OF assms Cons.prems(1)] Cons.IH [OF b] by blast
qed

text \<open>
  C1. Let the settings hold a limit \<open>m\<close> of at least 1, and let no more than \<open>m\<close> rows be
  downloading. Then over every sequence of enqueue, pause, resume, cancel and remove
  requests and of outcomes of transfers, each with its admission pass, no more than \<open>m\<close>
  rows are downloading at any point: after the update of each request, after each
  download that its pass starts, and so after each request; and the limit is still \<open>m\<close>.
\<close>

theorem active_never_exceeds_limit:
  assumes "getSettings (storage w) = Some settings"
    and "maxConcurrentDownloads settings = m"
    and "1 \<le> m"
    and "activeCount w \<le> m"
  shows "(\<forall>w' \<in> set (runPoints reqs w). activeCount w' \<le> m
            \<and> map_option maxConcurrentDownloads (getSettings (storage w')) = Some m)
     \<and> set (run reqs w) \<subseteq> set (runPoints reqs w)"
proof -
  have b: "bounded m w"
    using assms(1,2,4) by (simp add: bounded_def getSettings_def)
  have "bounded m w'" if "w' \<in> set (runPoints reqs w)" for w'
    using b that by (rule runPoints_bounded [OF assms(3)])
  then show ?thesis
    by (simp add: bounded_def getSettings_def run_subset_runPoints)
qed

lemma exampleRequests_counts:
  "map activeCount (runPoints exampleRequests (exampleWorld (exampleStore 2 [])))
     = [0, 1, 1, 1, 0, 1, 2, 2, 1, 0, 1]"
  "map activeCount (run exampleRequests (exampleWorld (exampleStore 2 [])))
     = [1, 1, 1, 2, 2, 1, 1]"
  by (simp_all add: exampleRequests_def exampleWorld_def exampleStore_def exampleInsert_def
        points_def passSteps_def toStart_def
        postDownloads_def postPause_def postResume_def postCancel_def deleteDownloads_def
        getDownloadByAppId_def rows_def createDownload_def maxQueue_def orNull_def
        processDownloadQueue_def getActiveDownloads_def getQueuedDownloads_def getSettings_def
        sortKey_def startDownload_def updateDownload_def updatedRow_def spread_def orElse_def
        statusUpdate_def resumeUpdate_def noUpdate_def noDateCompleted_def getDownloadById_def
        stopIfActive_def deleteDownload_def removeDownload_def activeCount_def Let_def
        pauseDownload_def cancelDownload_def emptyRunner_def AList.delete_eq)

text \<open>
  From the empty storage with the limit 2, the example requests leave 1, 1, 1, 2, 2, 1
  and 1 rows downloading; at the points in between there are 0, 1, 1, 1, 0, 1, 2, 2, 1, 0
  and 1.
\<close>

theorem active_never_exceeds_limit_witness:
  "map_option maxConcurrentDownloads
     (getSettings (storage (exampleWorld (exampleStore 2 [])))) = Some 2
   \<and> activeCount (exampleWorld (exampleStore 2 [])) = 0
   \<and> list_all (\<lambda>w. activeCount w \<le> 2)
        (runPoints exampleRequests (exampleWorld (exampleStore 2 [])))
   \<and> map activeCount (runPoints exampleRequests (exampleWorld (exampleStore 2 [])))
       = [0, 1, 1, 1, 0, 1, 2, 2, 1, 0, 1]
   \<and> map activeCount (run exampleRequests (exampleWorld (exampleStore 2 [])))
       = [1, 1, 1, 2, 2, 1, 1]"
proof -
  let ?w = "exampleWorld (exampleStore 2 [])"
  let ?s = "\<lparr> steamCmdPath = ''steamcmd'', downloadPath = ''games'',
              maxConcurrentDownloads = 2 \<rparr>"
  have s: "getSettings (storage ?w) = Some ?s"
    by (simp add: exampleWorld_def exampleStore_def getSettings_def)
  have m: "maxConcurrentDownloads ?s = 2" by simp
  have a: "activeCount ?w = 0"
    by (simp add: exampleWorld_def exampleStore_def activeCount_def rows_def)
  have "(\<forall>w' \<in> set (runPoints exampleRequests ?w). activeCount w' \<le> 2
           \<and> map_option maxConcurrentDownloads (getSettings (storage w')) = Some 2)
     \<and> set (run exampleRequests ?w) \<subseteq> set (runPoints exampleRequests ?w)"
    using s m by (rule active_never_exceeds_limit) (simp_all add: a)
  then have "list_all (\<lambda>w. activeCount w \<le> 2) (runPoints exampleRequests ?w)"
    by (simp add: list_all_iff)
  then show ?thesis using s a exampleRequests_counts by simp
qed

text \<open>
  C2, what the code does instead. An admission pass that finds any row downloading
  returns at once and admits nothing, whatever the limit and the queue.
\<close>

theorem processDownloadQueue_waits_for_idle:
  "getActiveDownloads (storage w) \<noteq> [] \<Longrightarrow> processDownloadQueue now w = w"
  by (simp add: processDownloadQueue_def)

text \<open>
  The failing input of C2: entry 1 is downloading, entry 2 is queued and the limit is 2.
  The pass changes nothing, and entry 2 stays queued.
\<close>

theorem processDownloadQueue_waits_for_idle_witness:
  "length (getActiveDownloads (storage oneActiveOneQueued)) = 1
   \<and> map_option maxConcurrentDownloads (getSettings (storage oneActiveOneQueued)) = Some 2
   \<and> map id_no (getQueuedDownloads (storage oneActiveOneQueued)) = [2]
   \<and> processDownloadQueue 0 oneActiveOneQueued = oneActiveOneQueued
   \<and> map_option status (getDownloadById 2 (storage (processDownloadQueue 0 oneActiveOneQueued)))
       = Some Queued"
proof -
  have a: "getActiveDownloads (storage oneActiveOneQueued) = [exampleRow 1 ''10'' Downloading 1]"
    by (simp add: oneActiveOneQueued_def exampleWorld_def exampleStore_def exampleRow_def
          getActiveDownloads_def rows_def)
  then have ne: "getActiveDownloads (storage oneActiveOneQueued) \<noteq> []" by simp
  have q: "map id_no (getQueuedDownloads (storage oneActiveOneQueued)) = [2]"
    "map_option maxConcurrentDownloads (getSettings (storage oneActiveOneQueued)) = Some 2"
    "map_option status (getDownloadById 2 (storage oneActiveOneQueued)) = Some Queued"
    by (simp_all add: oneActiveOneQueued_def exampleWorld_def exampleStore_def exampleRow_def
          getQueuedDownloads_def rows_def getSettings_def getDownloadById_def)
  show ?thesis
    using processDownloadQueue_waits_for_idle [OF ne, of 0] a q by simp
qed

subsection \<open>Rows under their own ids\<close>

text \<open>
  Every handler keeps each row under its own id, and a pass then finds the row of every
  download that it starts: \<^verbatim>\<open>startDownload\<close> does not throw, and each call records its
  polling interval.
\<close>

lemma keyed_lookup:
  "keyed st \<Longrightarrow> getDownloadById k st = Some d \<Longrightarrow> id_no d = k"
proof -
  assume k: "keyed st" and g: "getDownloadById k st = Some d"
  from g have "(k, d) \<in> set (downloadsList st)"
    by (simp add: getDownloadById_def map_of_SomeD)
  with k show ?thesis by (auto simp: keyed_def list_all_iff)
qed

lemma list_all_update:
  "list_all P dl \<Longrightarrow> P (k, v) \<Longrightarrow> list_all P (AList.update k v dl)"
  by (induction dl) auto

lemma list_all_delete: "list_all P dl \<Longrightarrow> list_all P (AList.delete k dl)"
  by (induction dl) auto

lemma keyed_updateDownload:
  assumes "keyed st" and "u_id u = None"
  shows "keyed (snd (updateDownload now i u st))"
proof (cases "getDownloadById i st")
  case None
  then show ?thesis using assms(1) by (simp add: updateDownload_missing)
next
  case (Some d)
  have "id_no (updatedRow now d u) = i"
    using keyed_lookup [OF assms(1) Some] assms(2) by (simp add: updatedRow_fields orElse_def)
  then show ?thesis
    using assms(1) Some by (simp add: updateDownload_found keyed_def list_all_update)
qed

lemma keyed_createDownload: "keyed st \<Longrightarrow> keyed (snd (createDownload now data st))"
  by (simp add: createDownload_def Let_def keyed_def list_all_update)

lemma keyed_deleteDownload: "keyed st \<Longrightarrow> keyed (deleteDownload i st)"
  by (simp add: deleteDownload_def removeDownload_def keyed_def list_all_delete)

lemma keyed_startDownload: "keyed (storage w) \<Longrightarrow> keyed (storage (startDownload now i w))"
  by (simp add: startDownload_storage keyed_updateDownload statusUpdate_def noUpdate_def)

lemma keyed_fold_startDownload:
  "keyed (storage w) \<Longrightarrow>
   keyed (storage (fold (\<lambda>download. startDownload now (id_no download)) ds w))"
  by (induction ds arbitrary: w) (simp_all add: keyed_startDownload)

lemma keyed_pass: "keyed (storage w) \<Longrightarrow> keyed (storage (processDownloadQueue now w))"
  by (simp add: processDownloadQueue_def Let_def keyed_fold_startDownload split: option.splits)

lemma keyed_handle: "keyed (storage w) \<Longrightarrow> keyed (storage (handle now req w))"
proof (cases req)
  case (Enqueue body)
  assume "keyed (storage w)"
  then show ?thesis using Enqueue
    by (auto simp: postDownloads_def Let_def split_beta keyed_pass keyed_createDownload
          split: option.splits)
next
  case (Pause i)
  assume "keyed (storage w)"
  then show ?thesis using Pause
    by (auto simp: postPause_def Let_def split_beta keyed_pass keyed_updateDownload
          statusUpdate_def noUpdate_def split: option.splits)
next
  case (Resume i)
  assume "keyed (storage w)"
  then show ?thesis using Resume
    by (auto simp: postResume_def Let_def split_beta keyed_pass keyed_updateDownload
          resumeUpdate_def noUpdate_def split: option.splits)
next
  case (Cancel i)
  assume "keyed (storage w)"
  then show ?thesis using Cancel
    by (auto simp: postCancel_def Let_def split_beta keyed_pass keyed_updateDownload
          statusUpdate_def noUpdate_def stopIfActive_storage split: option.splits)
next
  case (Remove i)
  assume "keyed (storage w)"
  then show ?thesis using Remove
    by (auto simp: deleteDownloads_def Let_def split_beta keyed_pass keyed_deleteDownload
          stopIfActive_storage split: option.splits)
next
  case (TransferSettled i ok)
  assume "keyed (storage w)"
  then show ?thesis using TransferSettled
    by (auto simp: onTransferSettled_def Let_def keyed_pass keyed_updateDownload
          failedUpdate_def noUpdate_def)
next
  case (TransferRejected i msg)
  assume "keyed (storage w)"
  then show ?thesis using TransferRejected
    by (auto simp: onTransferRejected_def Let_def keyed_pass keyed_updateDownload
          failedUpdate_def noUpdate_def)
qed

lemma keyed_queued_present:
  assumes "keyed st" and "d \<in> set (getQueuedDownloads st)"
  shows "id_no d \<in> fst ` set (downloadsList st)"
proof -
  from assms(2) have "d \<in> snd ` set (downloadsList st)"
    by (auto simp: getQueuedDownloads_def rows_def)
  then obtain k where kd: "(k, d) \<in> set (downloadsList st)" by auto
  with assms(1) have "id_no d = k" by (auto simp: keyed_def list_all_iff)
  with kd show ?thesis by force
qed

lemma startDownload_keys:
  "map fst (downloadsList (storage (startDownload now i w))) = map fst (downloadsList (storage w))"
  by (simp add: startDownload_storage updateDownload_keys)

lemma startDownload_found:
  assumes "i \<in> fst ` set (downloadsList (storage w))"
  shows "startDownload now i w
     = w\<lparr> storage := snd (updateDownload now i (statusUpdate Downloading) (storage w)),
          activeDownloadJobs := insert i (activeDownloadJobs w) \<rparr>"
proof -
  from assms obtain d where d: "getDownloadById i (storage w) = Some d"
    by (cases "getDownloadById i (storage w)") (auto simp: getDownloadById_def map_of_eq_None_iff)
  then show ?thesis
    by (simp add: startDownload_def Let_def updateDownload_same)
qed

lemma fold_startDownload_jobs:
  "id_no ` set ds \<subseteq> fst ` set (downloadsList (storage w)) \<Longrightarrow>
   activeDownloadJobs (fold (\<lambda>download. startDownload now (id_no download)) ds w)
     = activeDownloadJobs w \<union> id_no ` set ds"
proof (induction ds arbitrary: w)
  case Nil
  then show ?case by simp
next
  case (Cons d ds)
  have k: "fst ` set (downloadsList (storage (startDownload now (id_no d) w)))
      = fst ` set (downloadsList (storage w))"
    using startDownload_keys [of now "id_no d" w] by (metis set_map)
  have "activeDownloadJobs (startDownload now (id_no d) w) = insert (id_no d) (activeDownloadJobs w)"
    using Cons.prems by (simp add: startDownload_found)
  then show ?case
    using Cons.IH [of "startDownload now (id_no d) w"] Cons.prems k by auto
qed

lemma processDownloadQueue_finds_rows:
  assumes "keyed (storage w)"
  shows "activeDownloadJobs (processDownloadQueue now w)
     = activeDownloadJobs w \<union> id_no ` set (toStart w)"
proof -
  have "id_no ` set (toStart w) \<subseteq> fst ` set (downloadsList (storage w))"
  proof
    fix i
    assume "i \<in> id_no ` set (toStart w)"
    then obtain d where d: "d \<in> set (toStart w)" "i = id_no d" by auto
    then have "d \<in> set (getQueuedDownloads (storage w))"
      by (auto simp: toStart_def split: if_splits option.splits dest: in_set_takeD)
    then show "i \<in> fst ` set (downloadsList (storage w))"
      using keyed_queued_present [OF assms] d(2) by simp
  qed
  then show ?thesis
    by (simp add: processDownloadQueue_toStart fold_startDownload_jobs)
qed

subsection \<open>What a pass does to a row\<close>

lemma started_refl: "started d d"
  by (simp add: started_def)

lemma started_trans: "started d d' \<Longrightarrow> started d' d'' \<Longrightarrow> started d d''"
  by (auto simp: started_def)

lemma updatedRow_status:
  "s \<noteq> Completed \<Longrightarrow> updatedRow now d (statusUpdate s) = d\<lparr> status := s \<rparr>"
  by (cases d)
     (simp add: updatedRow_def spread_def statusUpdate_def noUpdate_def orElse_def Let_def)

lemma startDownload_row:
  "rel_option started (getDownloadById k (storage w))
     (getDownloadById k (storage (startDownload now i w)))"
proof (cases "k = i")
  case False
  then show ?thesis
    by (simp add: startDownload_storage updateDownload_other option.rel_refl started_refl)
next
  case True
  show ?thesis
  proof (cases "getDownloadById i (storage w)")
    case None
    then show ?thesis using True
      by (simp add: startDownload_storage updateDownload_missing)
  next
    case (Some d)
    then show ?thesis using True
      by (simp add: startDownload_storage updateDownload_same updatedRow_status started_def)
  qed
qed

lemma rel_option_started_trans:
  "rel_option started a b \<Longrightarrow> rel_option started b c \<Longrightarrow> rel_option started a c"
  by (cases a; cases b; cases c) (auto intro: started_trans)

lemma fold_startDownload_row:
  "rel_option started (getDownloadById k (storage w))
     (getDownloadById k (storage (fold (\<lambda>download. startDownload now (id_no download)) ds w)))"
proof (induction ds arbitrary: w)
  case Nil
  then show ?case by (simp add: option.rel_refl started_refl)
next
  case (Cons d ds)
  show ?case
    using startDownload_row [of k w now "id_no d"] Cons.IH [of "startDownload now (id_no d) w"]
    by (auto intro: rel_option_started_trans)
qed

lemma processDownloadQueue_row:
  "rel_option started (getDownloadById k (storage w))
     (getDownloadById k (storage (processDownloadQueue now w)))"
  by (simp add: processDownloadQueue_def Let_def fold_startDownload_row option.rel_refl
        started_refl split: option.splits)

lemma processDownloadQueue_row_Some:
  assumes "getDownloadById k (storage w) = Some d"
  shows "getDownloadById k (storage (processDownloadQueue now w)) = Some d
       \<or> getDownloadById k (storage (processDownloadQueue now w))
           = Some (d\<lparr> status := Downloading \<rparr>)"
  using processDownloadQueue_row [of k w now] assms
  by (cases "getDownloadById k (storage (processDownloadQueue now w))") (auto simp: started_def)

subsection \<open>Enqueue\<close>

lemma createDownload_row:
  "getDownloadById (downloadCurrentId st) (snd (createDownload now data st))
     = Some (fst (createDownload now data st))"
  by (simp add: createDownload_def Let_def getDownloadById_def update_conv')

lemma createDownload_fields:
  "appId (fst (createDownload now data st)) = ins_appId data"
  "status (fst (createDownload now data st)) = Queued"
  "id_no (fst (createDownload now data st)) = downloadCurrentId st"
  "queuePosition (fst (createDownload now data st)) = maxQueue st + 1"
  by (simp_all add: createDownload_def Let_def)

text \<open>
  C3, as the code has it. When the storage has a row for the appId, in whatever status,
  the enqueue is answered with 409 and that row, and nothing changes. When it has none,
  the answer is 201 with a new queued row for the appId, under the next id and at the
  position after the greatest one; the storage then holds this row, as it is or already
  set to downloading by the admission pass.
\<close>

theorem enqueue_rejects_existing_appId:
  "(getDownloadByAppId (ins_appId downloadData) (storage w) = Some existing \<longrightarrow>
      postDownloads now (Some downloadData) w
        = (Reply 409 ''This game is already in your download queue'' (Some existing), w))
   \<and> (getDownloadByAppId (ins_appId downloadData) (storage w) = None
        \<and> d = fst (createDownload now downloadData (storage w)) \<longrightarrow>
      fst (postDownloads now (Some downloadData) w) = Reply 201 [] (Some d)
      \<and> appId d = ins_appId downloadData \<and> status d = Queued
      \<and> id_no d = downloadCurrentId (storage w)
      \<and> queuePosition d = maxQueue (storage w) + 1
      \<and> (getDownloadById (id_no d) (storage (snd (postDownloads now (Some downloadData) w)))
            = Some d
          \<or> getDownloadById (id_no d) (storage (snd (postDownloads now (Some downloadData) w)))
            = Some (d\<lparr> status := Downloading \<rparr>)))"
proof (intro conjI impI)
  assume "getDownloadByAppId (ins_appId downloadData) (storage w) = Some existing"
  then show "postDownloads now (Some downloadData) w
        = (Reply 409 ''This game is already in your download queue'' (Some existing), w)"
    by (simp add: postDownloads_def)
next
  assume a: "getDownloadByAppId (ins_appId downloadData) (storage w) = None
        \<and> d = fst (createDownload now downloadData (storage w))"
  let ?w1 = "w\<lparr> storage := snd (createDownload now downloadData (storage w)) \<rparr>"
  have p: "postDownloads now (Some downloadData) w
      = (Reply 201 [] (Some d), processDownloadQueue now ?w1)"
    using a by (simp add: postDownloads_def split_beta Let_def)
  show "fst (postDownloads now (Some downloadData) w) = Reply 201 [] (Some d)"
    by (simp add: p)
  show "appId d = ins_appId downloadData" "status d = Queued"
    "id_no d = downloadCurrentId (storage w)" "queuePosition d = maxQueue (storage w) + 1"
    using a by (simp_all add: createDownload_fields)
  have "getDownloadById (id_no d) (storage ?w1) = Some d"
    using a by (simp add: createDownload_fields createDownload_row)
  then show "getDownloadById (id_no d) (storage (snd (postDownloads now (Some downloadData) w)))
            = Some d
          \<or> getDownloadById (id_no d) (storage (snd (postDownloads now (Some downloadData) w)))
            = Some (d\<lparr> status := Downloading \<rparr>)"
    unfolding p snd_conv by (rule processDownloadQueue_row_Some)
qed

text \<open>
  With entry 1 completed and entry 2 queued: enqueueing the appId of entry 2 is rejected,
  and enqueueing a new appId creates entry 3.
\<close>

theorem enqueue_rejects_existing_appId_witness:
  "postDownloads 9 (Some (exampleInsert ''20'')) (exampleWorld completedAndQueued)
     = (Reply 409 ''This game is already in your download queue''
          (Some (exampleRow 2 ''20'' Queued 2)), exampleWorld completedAndQueued)
   \<and> fst (postDownloads 9 (Some (exampleInsert ''30'')) (exampleWorld completedAndQueued))
     = Reply 201 [] (Some ((exampleRow 3 ''30'' Queued 3)\<lparr> dateAdded := 9 \<rparr>))"
proof -
  let ?w = "exampleWorld completedAndQueued"
  have e: "getDownloadByAppId (ins_appId (exampleInsert ''20'')) (storage ?w)
      = Some (exampleRow 2 ''20'' Queued 2)"
    by (simp add: exampleInsert_def exampleWorld_def completedAndQueued_def exampleStore_def
          exampleRow_def getDownloadByAppId_def rows_def)
  have n: "getDownloadByAppId (ins_appId (exampleInsert ''30'')) (storage ?w) = None"
    by (simp add: exampleInsert_def exampleWorld_def completedAndQueued_def exampleStore_def
          exampleRow_def getDownloadByAppId_def rows_def)
  have c: "fst (createDownload 9 (exampleInsert ''30'') (storage ?w))
      = (exampleRow 3 ''30'' Queued 3)\<lparr> dateAdded := 9 \<rparr>"
    by (simp add: exampleInsert_def exampleWorld_def completedAndQueued_def exampleStore_def
          exampleRow_def createDownload_def maxQueue_def rows_def orNull_def Let_def)
  show ?thesis
    using enqueue_rejects_existing_appId [of "exampleInsert ''20''" ?w
        "exampleRow 2 ''20'' Queued 2" 9
        "fst (createDownload 9 (exampleInsert ''20'') (storage ?w))"]
      enqueue_rejects_existing_appId [of "exampleInsert ''30''" ?w
        "exampleRow 2 ''20'' Queued 2" 9
        "fst (createDownload 9 (exampleInsert ''30'') (storage ?w))"]
      e n c by simp
qed

text \<open>
  C3 as stated fails: entry 1, for the appId 10, is completed, and enqueueing the appId 10
  again is rejected with 409 and creates nothing.
\<close>

theorem enqueue_after_terminal_rejected:
  "map_option status (getDownloadByAppId ''10'' (storage (exampleWorld completedAndQueued)))
     = Some Completed
   \<and> postDownloads 9 (Some (exampleInsert ''10'')) (exampleWorld completedAndQueued)
     = (Reply 409 ''This game is already in your download queue''
          (Some (exampleRow 1 ''10'' Completed 1)), exampleWorld completedAndQueued)"
  by (simp add: exampleInsert_def exampleWorld_def completedAndQueued_def exampleStore_def
        exampleRow_def getDownloadByAppId_def rows_def postDownloads_def)

subsection \<open>Resume\<close>

lemma updatedRow_resume:
  "updatedRow now d resumeUpdate = d\<lparr> status := Queued, queuePosition := 0 \<rparr>"
  by (cases d)
     (simp add: updatedRow_def spread_def resumeUpdate_def noUpdate_def orElse_def Let_def)

lemma getQueuedDownloads_order:
  assumes "a < length (getQueuedDownloads st)" and "b < length (getQueuedDownloads st)"
    and "sortKey (getQueuedDownloads st ! a) < sortKey (getQueuedDownloads st ! b)"
  shows "a < b"
proof (rule ccontr)
  assume "\<not> a < b"
  then have "b \<le> a" by simp
  have "sorted (map sortKey (getQueuedDownloads st))"
    by (simp add: getQueuedDownloads_def)
  then have "map sortKey (getQueuedDownloads st) ! b \<le> map sortKey (getQueuedDownloads st) ! a"
    using \<open>b \<le> a\<close> assms(1) by (intro sorted_nth_mono) simp_all
  then show False using assms by simp
qed

text \<open>
  C7, as the code has it. A resume of an id that the storage does not have is answered
  with 404, and one of a row that is not paused with 400; neither changes anything. A
  resume of a paused row is answered with 200. It sets the row to queued at position 0
  and changes nothing else of it. The queue orders a position of 0 as 999, so the
  admission pass that follows finds the row behind every queued row that \<^verbatim>\<open>sortKey\<close> puts
  below 999. After the pass the row is as the resume left it, or set to downloading.
\<close>

theorem resume_requeues_at_position_zero:
  "(getDownloadById i (storage w) = None \<longrightarrow>
      postResume now (Some i) w = (Reply 404 ''Download not found'' None, w))
   \<and> (getDownloadById i (storage w) = Some d \<and> status d \<noteq> Paused \<longrightarrow>
      postResume now (Some i) w = (Reply 400 ''Can only resume paused downloads'' None, w))
   \<and> (getDownloadById i (storage w) = Some d \<and> status d = Paused
        \<and> st1 = snd (updateDownload now i resumeUpdate (storage w))
        \<and> d1 = d\<lparr> status := Queued, queuePosition := 0 \<rparr> \<longrightarrow>
      postResume now (Some i) w
        = (Reply 200 ''Download queued for resumption'' None,
           processDownloadQueue now (w\<lparr> storage := st1 \<rparr>))
      \<and> getDownloadById i st1 = Some d1
      \<and> sortKey d1 = 999
      \<and> (a < length (getQueuedDownloads st1) \<and> b < length (getQueuedDownloads st1)
           \<and> getQueuedDownloads st1 ! b = d1 \<and> sortKey (getQueuedDownloads st1 ! a) < 999
         \<longrightarrow> a < b)
      \<and> (getDownloadById i (storage (snd (postResume now (Some i) w))) = Some d1
          \<or> getDownloadById i (storage (snd (postResume now (Some i) w)))
               = Some (d1\<lparr> status := Downloading \<rparr>)))"
proof (intro conjI impI)
  assume "getDownloadById i (storage w) = None"
  then show "postResume now (Some i) w = (Reply 404 ''Download not found'' None, w)"
    by (simp add: postResume_def)
next
  assume "getDownloadById i (storage w) = Some d \<and> status d \<noteq> Paused"
  then show "postResume now (Some i) w
      = (Reply 400 ''Can only resume paused downloads'' None, w)"
    by (simp add: postResume_def)
next
  assume h: "getDownloadById i (storage w) = Some d \<and> status d = Paused
        \<and> st1 = snd (updateDownload now i resumeUpdate (storage w))
        \<and> d1 = d\<lparr> status := Queued, queuePosition := 0 \<rparr>"
  show p: "postResume now (Some i) w
        = (Reply 200 ''Download queued for resumption'' None,
           processDownloadQueue now (w\<lparr> storage := st1 \<rparr>))"
    using h by (simp add: postResume_def Let_def)
  show g: "getDownloadById i st1 = Some d1"
    using h by (simp add: updateDownload_same updatedRow_resume)
  show k: "sortKey d1 = 999"
    using h by (simp add: sortKey_def)
  have "getDownloadById i (storage (w\<lparr> storage := st1 \<rparr>)) = Some d1"
    using g by simp
  then show "getDownloadById i (storage (snd (postResume now (Some i) w))) = Some d1
          \<or> getDownloadById i (storage (snd (postResume now (Some i) w)))
               = Some (d1\<lparr> status := Downloading \<rparr>)"
    unfolding p snd_conv by (rule processDownloadQueue_row_Some)
  assume "a < length (getQueuedDownloads st1) \<and> b < length (getQueuedDownloads st1)
           \<and> getQueuedDownloads st1 ! b = d1 \<and> sortKey (getQueuedDownloads st1 ! a) < 999"
  then show "a < b"
    using k getQueuedDownloads_order [of a st1 b] by simp
qed

lemma pausedQueuedActive_rows:
  "getDownloadById 2 (storage pausedQueuedActive) = Some (exampleRow 2 ''20'' Queued 2)"
  "getDownloadById 7 (storage pausedQueuedActive) = None"
  "getDownloadById 4 (storage pausedQueuedActive) = Some (exampleRow 4 ''40'' Paused 1)"
  by (simp_all add: pausedQueuedActive_def exampleWorld_def exampleStore_def exampleRow_def
        getDownloadById_def)

lemma pausedQueuedActive_resumed:
  "getDownloadById 4 (storage (snd (postResume 5 (Some 4) pausedQueuedActive)))
     = Some (exampleRow 4 ''40'' Queued 0)"
  "map id_no (getQueuedDownloads (storage (snd (postResume 5 (Some 4) pausedQueuedActive))))
     = [2, 4]"
  "maxQueue (storage pausedQueuedActive) + 1 = 4"
  by (simp_all add: pausedQueuedActive_def exampleWorld_def exampleStore_def exampleRow_def
        postResume_def rows_def maxQueue_def resumeUpdate_def processDownloadQueue_def
        getActiveDownloads_def getQueuedDownloads_def getSettings_def sortKey_def
        startDownload_def updateDownload_def updatedRow_def spread_def orElse_def
        statusUpdate_def noUpdate_def noDateCompleted_def getDownloadById_def Let_def)

text \<open>
  With entry 4 paused, entry 2 queued and entry 3 downloading: a resume of the missing
  entry 7 and of the queued entry 2 is rejected; the resume of entry 4 leaves it queued
  at position 0, and the queue lists it after entry 2.
\<close>

theorem resume_requeues_at_position_zero_witness:
  "postResume 5 (Some 7) pausedQueuedActive
     = (Reply 404 ''Download not found'' None, pausedQueuedActive)
   \<and> postResume 5 (Some 2) pausedQueuedActive
     = (Reply 400 ''Can only resume paused downloads'' None, pausedQueuedActive)
   \<and> fst (postResume 5 (Some 4) pausedQueuedActive)
     = Reply 200 ''Download queued for resumption'' None
   \<and> getDownloadById 4 (storage (snd (postResume 5 (Some 4) pausedQueuedActive)))
     = Some (exampleRow 4 ''40'' Queued 0)
   \<and> map id_no (getQueuedDownloads (storage (snd (postResume 5 (Some 4) pausedQueuedActive))))
     = [2, 4]"
proof -
  let ?w = pausedQueuedActive
  let ?st1 = "snd (updateDownload 5 4 resumeUpdate (storage ?w))"
  let ?d1 = "(exampleRow 4 ''40'' Paused 1)\<lparr> status := Queued, queuePosition := 0 \<rparr>"
  have s: "status (exampleRow 2 ''20'' Queued 2) \<noteq> Paused"
    "status (exampleRow 4 ''40'' Paused 1) = Paused"
    by (simp_all add: exampleRow_def)
  show ?thesis
    using resume_requeues_at_position_zero [of 7 ?w 5 "exampleRow 4 ''40'' Paused 1" ?st1 ?d1 0 1]
      resume_requeues_at_position_zero [of 2 ?w 5 "exampleRow 2 ''20'' Queued 2" ?st1 ?d1 0 1]
      resume_requeues_at_position_zero [of 4 ?w 5 "exampleRow 4 ''40'' Paused 1" ?st1 ?d1 0 1]
      pausedQueuedActive_rows pausedQueuedActive_resumed s
    by simp
qed

text \<open>
  C7 as stated fails: the greatest position is 3, so the claim puts the resumed entry 4
  at position 4; the code puts it at position 0.
\<close>

theorem resume_position_is_not_max_plus_one:
  "map_option status (getDownloadById 4 (storage pausedQueuedActive)) = Some Paused
   \<and> maxQueue (storage pausedQueuedActive) + 1 = 4
   \<and> map_option queuePosition
        (getDownloadById 4 (storage (snd (postResume 5 (Some 4) pausedQueuedActive)))) = Some 0"
  using pausedQueuedActive_rows pausedQueuedActive_resumed by (simp add: exampleRow_def)

section \<open>Properties of the compression runner\<close>

lemma setJob_fields:
  "libraryGamesList (setJob a j s) = libraryGamesList s"
  "jobClosures (setJob a j s) = jobClosures s"
  "nextJob (setJob a j s) = nextJob s"
  "promises (setJob a j s) = promises s"
  "map_of (activeCompressionJobs (setJob a j s)) = (map_of (activeCompressionJobs s))(a \<mapsto> j)"
  by (simp_all add: setJob_def update_conv')

lemma putClosure_fields:
  "activeCompressionJobs (putClosure h c s) = activeCompressionJobs s"
  "libraryGamesList (putClosure h c s) = libraryGamesList s"
  "jobClosures (putClosure h c s) = (jobClosures s)(h \<mapsto> c)"
  by (simp_all add: putClosure_def)

lemma updateGameCompressionInfo_fields:
  "activeCompressionJobs (updateGameCompressionInfo now a isC cs cp ct cd s)
     = activeCompressionJobs s"
  "jobClosures (updateGameCompressionInfo now a isC cs cp ct cd s) = jobClosures s"
  by (simp_all add: updateGameCompressionInfo_def split: option.splits)

lemma compressGame_parts:
  "compressGame env a format level s =
     (case compressGameCheck env a format level s of
        None \<Rightarrow> (NotStarted, s)
      | Some c \<Rightarrow>
          (case compressGameRegister c s of
             (None, s1) \<Rightarrow> (NotStarted, s1)
           | (Some c2, s2) \<Rightarrow> compressGameStart c2 s2))"
  by (simp add: compressGame_def compressGameCheck_def compressGameRegister_def
        compressGameStart_def catchBlock_def Let_def split: option.splits sum.splits)

lemma compressing_started:
  "compressGame exampleEnv ''730'' Zip 6 exampleCompressor = (Started 0, compressing)"
  by (simp add: compressing_def compressGame_def exampleCompressor_def exampleEnv_def
        exampleGame_def Let_def setJob_def putClosure_def)

lemma compressing_job: "getCompressionJob ''730'' compressing = Some compressingJob"
  by (simp add: compressing_def compressGame_def exampleCompressor_def exampleEnv_def
        exampleGame_def Let_def setJob_def putClosure_def getCompressionJob_def
        compressingJob_def)

lemma compressing_nonTerminal: "nonTerminal compressingJob"
  by (simp add: nonTerminal_def compressingJob_def)

text \<open>
  A call that resumes at both awaits before anything else happens is \<open>compressGame\<close>.
\<close>

lemma wholeCall_compressGame:
  "compressor (fold (compressorStep percent formatBytes) (wholeCall env a format level 0)
       (idle s))
     = snd (compressGame env a format level s)"
  "returned (fold (compressorStep percent formatBytes) (wholeCall env a format level 0)
       (idle s)) 0
     = Some (fst (compressGame env a format level s))"
  by (simp_all add: wholeCall_def idle_def compressGame_parts Let_def
        split: option.splits prod.splits)

text \<open>
  Calls that do not overlap can also leave two jobs for one key compressing, when the
  output stream of a compression that has failed closes after the next compression for
  the key has started: the handler of \<^verbatim>\<open>close\<close> writes the job of the first compression
  back to the table as completed, so the check of a third call passes while the second
  compression is running.
\<close>

lemma close_after_error_admits_third:
  "returned (fold (compressorStep exactPercent plainBytes)
       (wholeCall exampleEnv ''730'' Zip 6 0 @ [ArchiveError 4 ''read error'' 0]
        @ wholeCall exampleEnv ''730'' Zip 6 1 @ [OutputClose 5 (Inr 10) 0]
        @ wholeCall exampleEnv ''730'' Zip 6 2) (idle exampleCompressor)) 2 = Some (Started 2)
   \<and> runningJob 1 (compressor (fold (compressorStep exactPercent plainBytes)
       (wholeCall exampleEnv ''730'' Zip 6 0 @ [ArchiveError 4 ''read error'' 0]
        @ wholeCall exampleEnv ''730'' Zip 6 1 @ [OutputClose 5 (Inr 10) 0]
        @ wholeCall exampleEnv ''730'' Zip 6 2) (idle exampleCompressor)))
       = Some (''730'', JobCompressing)
   \<and> runningJob 2 (compressor (fold (compressorStep exactPercent plainBytes)
       (wholeCall exampleEnv ''730'' Zip 6 0 @ [ArchiveError 4 ''read error'' 0]
        @ wholeCall exampleEnv ''730'' Zip 6 1 @ [OutputClose 5 (Inr 10) 0]
        @ wholeCall exampleEnv ''730'' Zip 6 2) (idle exampleCompressor)))
       = Some (''730'', JobCompressing)"
  by (simp add: wholeCall_def idle_def exampleCompressor_def exampleEnv_def exampleGame_def
        compressGameCheck_def compressGameRegister_def compressGameStart_def
        onArchiveError_def onOutputClose_def updateGameCompressionInfo_def
        Let_def setJob_def putClosure_def runningJob_def nonTerminal_def)

lemma twoCalls_race:
  assumes free: "\<forall>j. getCompressionJob a s = Some j \<longrightarrow> \<not> nonTerminal j"
    and game: "map_of (libraryGamesList s) a = Some game"
    and path: "existsSync env (game_installPath game)"
    and noThrow: "setupError env = None"
    and size: "directorySize env = Inr n"
  shows "returned (fold (compressorStep percent formatBytes) (twoCalls env a format level)
           (idle s)) 0 = Some (Started (nextJob s))"
    and "returned (fold (compressorStep percent formatBytes) (twoCalls env a format level)
           (idle s)) 1 = Some (Started (nextJob s + 1))"
    and "runningJob (nextJob s) (compressor (fold (compressorStep percent formatBytes)
           (twoCalls env a format level) (idle s))) = Some (a, JobCompressing)"
    and "runningJob (nextJob s + 1) (compressor (fold (compressorStep percent formatBytes)
           (twoCalls env a format level) (idle s))) = Some (a, JobCompressing)"
proof -
  have check: "compressGameCheck env a format level s
      = Some \<lparr> al_env = env, al_appId = a, al_format = format, al_game = Some game \<rparr>"
    using free game
    by (auto simp: compressGameCheck_def getCompressionJob_def split: option.splits)
  show "returned (fold (compressorStep percent formatBytes) (twoCalls env a format level)
           (idle s)) 0 = Some (Started (nextJob s))"
    and "returned (fold (compressorStep percent formatBytes) (twoCalls env a format level)
           (idle s)) 1 = Some (Started (nextJob s + 1))"
    and "runningJob (nextJob s) (compressor (fold (compressorStep percent formatBytes)
           (twoCalls env a format level) (idle s))) = Some (a, JobCompressing)"
    and "runningJob (nextJob s + 1) (compressor (fold (compressorStep percent formatBytes)
           (twoCalls env a format level) (idle s))) = Some (a, JobCompressing)"
    using check path noThrow size
    by (simp_all add: twoCalls_def idle_def compressGameRegister_def compressGameStart_def
          Let_def setJob_def putClosure_def runningJob_def)
qed

text \<open>
  C5. While the job table holds a pending or compressing job for the key,
  \<^verbatim>\<open>compressGame\<close> returns null and changes nothing, so it creates no second job. It does
  the same when the install path of the game does not exist, and when the library has no
  game for the key. But the table is checked before the first await and the job is
  registered after it: when no job for the key is pending or compressing, the game is in
  the library, its install path exists and nothing throws, two calls for the key that are
  both made before either resumes are both started, and the jobs of both are compressing
  at the same time. So more than one job for one key can be pending or compressing.
\<close>

theorem compressGame_check_before_await:
  "(getCompressionJob a s = Some existingJob \<and> nonTerminal existingJob \<longrightarrow>
      compressGame env a format level s = (NotStarted, s))
   \<and> (map_of (libraryGamesList s) a = Some game \<and> \<not> existsSync env (game_installPath game) \<longrightarrow>
      compressGame env a format level s = (NotStarted, s))
   \<and> (map_of (libraryGamesList s) a = None \<longrightarrow>
      compressGame env a format level s = (NotStarted, s))
   \<and> ((\<forall>j. getCompressionJob a s = Some j \<longrightarrow> \<not> nonTerminal j)
        \<and> map_of (libraryGamesList s) a = Some game \<and> existsSync env (game_installPath game)
        \<and> setupError env = None \<and> directorySize env = Inr n \<longrightarrow>
      returned (fold (compressorStep percent formatBytes) (twoCalls env a format level)
          (idle s)) 0 = Some (Started (nextJob s))
      \<and> returned (fold (compressorStep percent formatBytes) (twoCalls env a format level)
          (idle s)) 1 = Some (Started (nextJob s + 1))
      \<and> runningJob (nextJob s) (compressor (fold (compressorStep percent formatBytes)
          (twoCalls env a format level) (idle s))) = Some (a, JobCompressing)
      \<and> runningJob (nextJob s + 1) (compressor (fold (compressorStep percent formatBytes)
          (twoCalls env a format level) (idle s))) = Some (a, JobCompressing))"
proof (intro conjI impI)
  assume h: "(\<forall>j. getCompressionJob a s = Some j \<longrightarrow> \<not> nonTerminal j)
        \<and> map_of (libraryGamesList s) a = Some game \<and> existsSync env (game_installPath game)
        \<and> setupError env = None \<and> directorySize env = Inr n"
  show "returned (fold (compressorStep percent formatBytes) (twoCalls env a format level)
          (idle s)) 0 = Some (Started (nextJob s))"
    using h twoCalls_race(1) [of a s game env n] by blast
  show "returned (fold (compressorStep percent formatBytes) (twoCalls env a format level)
          (idle s)) 1 = Some (Started (nextJob s + 1))"
    using h twoCalls_race(2) [of a s game env n] by blast
  show "runningJob (nextJob s) (compressor (fold (compressorStep percent formatBytes)
          (twoCalls env a format level) (idle s))) = Some (a, JobCompressing)"
    using h twoCalls_race(3) [of a s game env n] by blast
  show "runningJob (nextJob s + 1) (compressor (fold (compressorStep percent formatBytes)
          (twoCalls env a format level) (idle s))) = Some (a, JobCompressing)"
    using h twoCalls_race(4) [of a s game env n] by blast
qed (auto simp: compressGame_def getCompressionJob_def split: option.splits)

text \<open>
  While the example game is compressing, a second call is not started; nor is a call
  whose install path does not exist, nor one for a game that is not in the library. Two
  calls for the example game that are made before either resumes both start, with the
  handles 0 and 1, and both jobs are compressing.
\<close>

theorem compressGame_check_before_await_witness:
  "compressGame exampleEnv ''730'' Tar 9 compressing = (NotStarted, compressing)
   \<and> compressGame (exampleEnv\<lparr> existsSync := (\<lambda>p. False) \<rparr>) ''730'' Zip 6 exampleCompressor
       = (NotStarted, exampleCompressor)
   \<and> compressGame exampleEnv ''440'' Zip 6 exampleCompressor = (NotStarted, exampleCompressor)
   \<and> returned (fold (compressorStep exactPercent plainBytes) (twoCalls exampleEnv ''730'' Zip 6)
       (idle exampleCompressor)) 0 = Some (Started 0)
   \<and> returned (fold (compressorStep exactPercent plainBytes) (twoCalls exampleEnv ''730'' Zip 6)
       (idle exampleCompressor)) 1 = Some (Started 1)
   \<and> runningJob 0 (compressor (fold (compressorStep exactPercent plainBytes)
       (twoCalls exampleEnv ''730'' Zip 6) (idle exampleCompressor)))
       = Some (''730'', JobCompressing)
   \<and> runningJob 1 (compressor (fold (compressorStep exactPercent plainBytes)
       (twoCalls exampleEnv ''730'' Zip 6) (idle exampleCompressor)))
       = Some (''730'', JobCompressing)"
proof -
  have lib: "map_of (libraryGamesList exampleCompressor) ''730'' = Some exampleGame"
    "map_of (libraryGamesList exampleCompressor) ''440'' = None"
    "\<not> existsSync (exampleEnv\<lparr> existsSync := (\<lambda>p. False) \<rparr>) (game_installPath exampleGame)"
    "existsSync exampleEnv (game_installPath exampleGame)"
    "setupError exampleEnv = None" "directorySize exampleEnv = Inr 200"
    "getCompressionJob ''730'' exampleCompressor = None"
    "nextJob exampleCompressor = 0"
    by (simp_all add: exampleCompressor_def exampleEnv_def exampleGame_def
          getCompressionJob_def)
  show ?thesis
    using compressGame_check_before_await [where a = "''730''" and s = compressing
        and existingJob = compressingJob and env = exampleEnv and format = Tar and level = 9
        and game = exampleGame and n = 200 and percent = exactPercent
        and formatBytes = plainBytes]
      compressGame_check_before_await [where a = "''730''" and s = exampleCompressor
        and existingJob = compressingJob
        and env = "exampleEnv\<lparr> existsSync := (\<lambda>p. False) \<rparr>" and format = Zip and level = 6
        and game = exampleGame and n = 200 and percent = exactPercent
        and formatBytes = plainBytes]
      compressGame_check_before_await [where a = "''440''" and s = exampleCompressor
        and existingJob = compressingJob and env = exampleEnv and format = Zip and level = 6
        and game = exampleGame and n = 200 and percent = exactPercent
        and formatBytes = plainBytes]
      compressGame_check_before_await [where a = "''730''" and s = exampleCompressor
        and existingJob = compressingJob and env = exampleEnv and format = Zip and level = 6
        and game = exampleGame and n = 200 and percent = exactPercent
        and formatBytes = plainBytes]
      lib compressing_job compressing_nonTerminal
    by simp
qed

subsection \<open>Progress\<close>

lemma compressGame_inStep:
  "compressGame env a format level s = (Started h, s1) \<Longrightarrow> inStep a h s1"
  by (auto simp: compressGame_def Let_def catchBlock_def inStep_def getCompressionJob_def
        setJob_fields putClosure_fields split: option.splits sum.splits if_splits)

lemma onEntry_inStep: "inStep a h s \<Longrightarrow> inStep a h (onEntry percent sz h s)"
  by (auto simp: onEntry_def Let_def inStep_def getCompressionJob_def setJob_fields
        putClosure_fields split: option.splits)

lemma onEntries_inStep: "inStep a h s \<Longrightarrow> inStep a h (onEntries percent sizes h s)"
  unfolding onEntries_def
  by (induction sizes arbitrary: s) (simp_all add: onEntry_inStep)

lemma inStep_progress:
  "inStep a h s \<Longrightarrow>
   \<exists>p. progressOf h s = Some p \<and> p \<le> 99
     \<and> map_option job_progress (getCompressionJob a s) = Some p"
  by (auto simp: inStep_def progressOf_def split: option.splits)

lemma onOutputClose_ok:
  "inStep a h s \<Longrightarrow>
   progressOf h (onOutputClose formatBytes now (Inr n) h s) = Some 100
   \<and> map_option job_progress (getCompressionJob a (onOutputClose formatBytes now (Inr n) h s))
       = Some 100
   \<and> map_option job_status (getCompressionJob a (onOutputClose formatBytes now (Inr n) h s))
       = Some JobCompleted"
  by (auto simp: onOutputClose_def Let_def inStep_def progressOf_def getCompressionJob_def
        setJob_fields putClosure_fields updateGameCompressionInfo_fields split: option.splits)

lemma onOutputClose_failed:
  "inStep a h s \<Longrightarrow>
   progressOf h (onOutputClose formatBytes now (Inl msg) h s) = progressOf h s
   \<and> map_option job_status (getCompressionJob a (onOutputClose formatBytes now (Inl msg) h s))
       = Some JobFailed"
  by (auto simp: onOutputClose_def Let_def inStep_def progressOf_def getCompressionJob_def
        setJob_fields putClosure_fields split: option.splits)

text \<open>
  C6, as the code has it. After a compression has started, and after any sequence of
  entry events of its archive, the progress of its job, in its closure and in the job
  table, is at most 99. When the close event of the output stream then finds the size of
  the output file, the progress is 100 and the job is completed. When reading the size
  throws, the job is failed and its progress stays what it was.
\<close>

theorem compression_progress_capped_until_close:
  assumes "compressGame env a format level s = (Started h, s1)"
    and "s2 = onEntries percent sizes h s1"
  shows "(\<exists>p. progressOf h s2 = Some p \<and> p \<le> 99
            \<and> map_option job_progress (getCompressionJob a s2) = Some p)
     \<and> progressOf h (onOutputClose formatBytes now (Inr n) h s2) = Some 100
     \<and> map_option job_progress (getCompressionJob a (onOutputClose formatBytes now (Inr n) h s2))
         = Some 100
     \<and> map_option job_status (getCompressionJob a (onOutputClose formatBytes now (Inr n) h s2))
         = Some JobCompleted
     \<and> progressOf h (onOutputClose formatBytes now (Inl msg) h s2) = progressOf h s2
     \<and> map_option job_status (getCompressionJob a (onOutputClose formatBytes now (Inl msg) h s2))
         = Some JobFailed"
proof -
  have "inStep a h s2"
    using assms by (simp add: compressGame_inStep onEntries_inStep)
  then show ?thesis
    using inStep_progress [of a h s2] onOutputClose_ok [of a h s2 formatBytes now n]
      onOutputClose_failed [of a h s2 formatBytes now msg]
    by simp
qed

lemma example_progress:
  "progressOf 0 (onEntries exactPercent [Some 50, None, Some 0, Some 150] 0 compressing)
     = Some 99"
  by (simp add: compressing_def compressGame_def exampleCompressor_def exampleEnv_def
        exampleGame_def Let_def setJob_def onEntries_def onEntry_def putClosure_def
        progressOf_def exactPercent_def)

text \<open>
  The example game has 200 bytes. After entries of 50 bytes, without stats, of 0 bytes
  and of 150 bytes the progress is 99, and after the close event it is 100.
\<close>

theorem compression_progress_capped_until_close_witness:
  "progressOf 0 (onEntries exactPercent [Some 50, None, Some 0, Some 150] 0 compressing)
     = Some 99
   \<and> progressOf 0 (onOutputClose plainBytes 9 (Inr 1234) 0
        (onEntries exactPercent [Some 50, None, Some 0, Some 150] 0 compressing)) = Some 100"
  using compression_progress_capped_until_close [OF compressing_started refl,
      of exactPercent "[Some 50, None, Some 0, Some 150]" plainBytes 9 1234 "[]"]
    example_progress
  by simp

text \<open>
  C6 as stated fails when the close handler cannot read the size of the output file:
  after an entry of 50 of the 200 bytes the progress is 25, and it is still 25, not 100,
  after the close event; the job is failed.
\<close>

theorem close_with_failed_stat_keeps_progress:
  "progressOf 0 (onEntries exactPercent [Some 50] 0 compressing) = Some 25
   \<and> progressOf 0 (onOutputClose plainBytes 9 (Inl ''ENOENT'') 0
        (onEntries exactPercent [Some 50] 0 compressing)) = Some 25
   \<and> map_option job_status (getCompressionJob ''730''
        (onOutputClose plainBytes 9 (Inl ''ENOENT'') 0
           (onEntries exactPercent [Some 50] 0 compressing))) = Some JobFailed"
  by (simp add: compressing_def compressGame_def exampleCompressor_def exampleEnv_def
        exampleGame_def Let_def setJob_def onEntries_def onEntry_def putClosure_def
        progressOf_def exactPercent_def onOutputClose_def getCompressionJob_def)

end
